theory Spec2Isabelle
  imports Main "HOL-Library.Char_ord" "HOL-Library.List_Lexorder" "HOL-Library.Multiset"
begin

section \<open>Data model (src/types/board.ts)\<close>

datatype priority = Low | Normal | High

text \<open>
  A JavaScript \<open>Date\<close>: either an instant in epoch milliseconds or the invalid date
  that \<open>new Date(undefined)\<close> produces. An ISO-8601 string on the wire is identified
  with the instant it denotes (\<open>toISOString\<close> and \<open>new Date\<close> round-trip at
  millisecond resolution).
\<close>

datatype date = InvalidDate | Date int

record user_lite =
  ul_id :: string
  ul_name :: string
  ul_email :: string

record comment =
  cm_id :: string
  cm_text :: string
  cm_createdAt :: date
  cm_author :: "user_lite option"

record card =
  card_id :: string
  card_title :: string
  description :: string
  priority :: priority
  executor :: string
  comments :: "comment list"
  createdAt :: date
  card_sectionId :: string
  assignees :: "user_lite list option"

record "section" =
  section_id :: string
  section_title :: string
  cards :: "card list"
  canDelete :: bool

record board =
  board_id :: string
  board_title :: string
  sections :: "section list"

text \<open>
  The JSON object a card route replies with (\<open>await res.json()\<close>, typed \<open>any\<close> in
  the hook). The hook guards \<open>createdAt\<close> and \<open>comments\<close> with \<open>??\<close> and
  \<open>?.\<close>, so these two may be absent; \<open>assignees\<close> is absent in the reply of the
  create route.
\<close>

record card_json =
  cj_id :: string
  cj_title :: string
  cj_description :: string
  cj_priority :: priority
  cj_executor :: string
  cj_comments :: "comment list option"
  cj_createdAt :: "date option"
  cj_sectionId :: string
  cj_assignees :: "user_lite list option"

text \<open>
  The result of \<open>fetch\<close>: \<open>res.ok\<close> with the parsed JSON body of the route, or a
  non-ok status with the route's message.
\<close>

datatype 'a response = Failure nat string | Success nat 'a

fun ok :: "'a response \<Rightarrow> bool" where
  "ok (Failure st msg) = False"
| "ok (Success st body) = True"

text \<open>How an asynchronous operation of the hook ends: its promise rejects or resolves.\<close>

datatype outcome = Threw string | Done

section \<open>The board hook (src/hooks/useBoardData.ts)\<close>

subsection \<open>Reviving dates\<close>

definition new_Date :: "date \<Rightarrow> date" where
  "new_Date d = d"

definition new_Date_opt :: "date option \<Rightarrow> date" where
  "new_Date_opt d = (case d of None \<Rightarrow> InvalidDate | Some t \<Rightarrow> new_Date t)"

definition revive_comment :: "comment \<Rightarrow> comment" where
  "revive_comment cm = cm\<lparr>cm_createdAt := new_Date (cm_createdAt cm)\<rparr>"

definition revive_card :: "card \<Rightarrow> card" where
  "revive_card c =
     c\<lparr>createdAt := new_Date (createdAt c), comments := map revive_comment (comments c)\<rparr>"

definition reviveBoardDates :: "board \<Rightarrow> board" where
  "reviveBoardDates b =
     b\<lparr>sections := map (\<lambda>s. s\<lparr>cards := map revive_card (cards s)\<rparr>) (sections b)\<rparr>"

definition initial_board :: board where
  "initial_board =
     \<lparr>board_id = ''main-board'', board_title = '''',
      sections =
        [\<lparr>section_id = ''backlog'', section_title = ''Backlog'', cards = [], canDelete = False\<rparr>,
         \<lparr>section_id = ''todo'', section_title = ''To Do'', cards = [], canDelete = True\<rparr>,
         \<lparr>section_id = ''review'', section_title = ''Review'', cards = [], canDelete = True\<rparr>,
         \<lparr>section_id = ''done'', section_title = ''Done'', cards = [], canDelete = True\<rparr>]\<rparr>"

subsection \<open>State updates passed to \<open>setBoard\<close>\<close>

definition addSection_merge :: "section \<Rightarrow> board \<Rightarrow> board" where
  "addSection_merge sec prev = prev\<lparr>sections := sections prev @ [sec]\<rparr>"

definition assignees_merge :: "string \<Rightarrow> user_lite list \<Rightarrow> board \<Rightarrow> board" where
  "assignees_merge cardId as prev =
     prev\<lparr>sections :=
       map (\<lambda>s. s\<lparr>cards :=
              map (\<lambda>c. if card_id c = cardId then c\<lparr>assignees := Some as\<rparr> else c) (cards s)\<rparr>)
           (sections prev)\<rparr>"

definition created_card :: "card_json \<Rightarrow> card" where
  "created_card created =
     \<lparr>card_id = cj_id created, card_title = cj_title created,
      description = cj_description created, priority = cj_priority created,
      executor = cj_executor created, comments = [],
      createdAt = new_Date_opt (cj_createdAt created),
      card_sectionId = cj_sectionId created, assignees = cj_assignees created\<rparr>"

definition addCard_merge :: "string \<Rightarrow> card_json \<Rightarrow> board \<Rightarrow> board" where
  "addCard_merge sectionId created prev =
     prev\<lparr>sections :=
       map (\<lambda>s. if section_id s = sectionId
                 then s\<lparr>cards := cards s @ [created_card created]\<rparr>
                 else s)
           (sections prev)\<rparr>"

definition updated_card :: "card_json \<Rightarrow> card \<Rightarrow> card" where
  "updated_card updated c =
     \<lparr>card_id = cj_id updated, card_title = cj_title updated,
      description = cj_description updated, priority = cj_priority updated,
      executor = cj_executor updated,
      comments = (case cj_comments updated of
                    Some cms \<Rightarrow> map revive_comment cms
                  | None \<Rightarrow> comments c),
      createdAt = new_Date (case cj_createdAt updated of Some t \<Rightarrow> t | None \<Rightarrow> createdAt c),
      card_sectionId = cj_sectionId updated, assignees = cj_assignees updated\<rparr>"

definition updateCard_merge :: "card \<Rightarrow> card_json \<Rightarrow> board \<Rightarrow> board" where
  "updateCard_merge crd updated prev =
     prev\<lparr>sections :=
       map (\<lambda>s. s\<lparr>cards :=
              map (\<lambda>c. if card_id c = card_id crd then updated_card updated c else c) (cards s)\<rparr>)
           (sections prev)\<rparr>"

definition deleteCard_merge :: "string \<Rightarrow> board \<Rightarrow> board" where
  "deleteCard_merge cardId prev =
     prev\<lparr>sections :=
       map (\<lambda>s. s\<lparr>cards := filter (\<lambda>c. card_id c \<noteq> cardId) (cards s)\<rparr>) (sections prev)\<rparr>"

definition moved_card :: "card_json \<Rightarrow> card" where
  "moved_card moved =
     \<lparr>card_id = cj_id moved, card_title = cj_title moved,
      description = cj_description moved, priority = cj_priority moved,
      executor = cj_executor moved,
      comments = (case cj_comments moved of
                    Some cms \<Rightarrow> map revive_comment cms
                  | None \<Rightarrow> []),
      createdAt = new_Date_opt (cj_createdAt moved),
      card_sectionId = cj_sectionId moved, assignees = cj_assignees moved\<rparr>"

definition moveCard_merge :: "string \<Rightarrow> string \<Rightarrow> card_json \<Rightarrow> board \<Rightarrow> board" where
  "moveCard_merge cardId targetSectionId moved prev =
     (let without =
            map (\<lambda>s. s\<lparr>cards := filter (\<lambda>c. card_id c \<noteq> cardId) (cards s)\<rparr>) (sections prev)
      in prev\<lparr>sections :=
           map (\<lambda>s. if section_id s = targetSectionId
                     then s\<lparr>cards := cards s @ [moved_card moved]\<rparr>
                     else s)
               without\<rparr>)"

subsection \<open>The mutation operations\<close>

text \<open>
  Each operation awaits the reply of its remote call, throws when the reply is not ok, and
  otherwise passes a state update to \<open>setBoard\<close>. The result is the outcome of the promise
  and the board state afterwards. The three section operations that refetch take the reply of
  the second request as well; its status is not inspected, and \<open>reviveBoardDates\<close> raises a
  \<open>TypeError\<close> on a body without \<open>sections\<close>.
\<close>

definition refetch_board :: "board response \<Rightarrow> board \<Rightarrow> outcome \<times> board" where
  "refetch_board reply prev =
     (case reply of
        Success st b \<Rightarrow> (Done, reviveBoardDates b)
      | Failure st msg \<Rightarrow> (Threw ''TypeError'', prev))"

definition addSection :: "section response \<Rightarrow> string \<Rightarrow> board \<Rightarrow> outcome \<times> board" where
  "addSection res title prev =
     (case res of
        Failure st msg \<Rightarrow> (Threw ''Failed to create section'', prev)
      | Success st sec \<Rightarrow> (Done, addSection_merge sec prev))"

definition deleteSection ::
    "unit response \<Rightarrow> board response \<Rightarrow> string \<Rightarrow> board \<Rightarrow> outcome \<times> board" where
  "deleteSection res reply sectionId prev =
     (case res of
        Failure st msg \<Rightarrow> (Threw ''Failed to delete section'', prev)
      | Success st u \<Rightarrow> refetch_board reply prev)"

definition clearSection ::
    "section response \<Rightarrow> board response \<Rightarrow> string \<Rightarrow> board \<Rightarrow> outcome \<times> board" where
  "clearSection res reply sectionId prev =
     (case res of
        Failure st msg \<Rightarrow> (Threw ''Failed to clear section'', prev)
      | Success st u \<Rightarrow> refetch_board reply prev)"

definition deleteAllSections ::
    "section list response \<Rightarrow> board response \<Rightarrow> board \<Rightarrow> outcome \<times> board" where
  "deleteAllSections res reply prev =
     (case res of
        Failure st msg \<Rightarrow> (Threw ''Failed to delete all sections'', prev)
      | Success st u \<Rightarrow> refetch_board reply prev)"

definition assignUser ::
    "user_lite list response \<Rightarrow> string \<Rightarrow> string \<Rightarrow> board \<Rightarrow> outcome \<times> board" where
  "assignUser res cardId userId prev =
     (case res of
        Failure st msg \<Rightarrow> (Threw ''Failed to assign user'', prev)
      | Success st as \<Rightarrow> (Done, assignees_merge cardId as prev))"

definition unassignUser ::
    "user_lite list response \<Rightarrow> string \<Rightarrow> string \<Rightarrow> board \<Rightarrow> outcome \<times> board" where
  "unassignUser res cardId userId prev =
     (case res of
        Failure st msg \<Rightarrow> (Threw ''Failed to unassign user'', prev)
      | Success st as \<Rightarrow> (Done, assignees_merge cardId as prev))"

definition addCard ::
    "card_json response \<Rightarrow> string \<Rightarrow> card \<Rightarrow> board \<Rightarrow> outcome \<times> board" where
  "addCard res sectionId crd prev =
     (case res of
        Failure st msg \<Rightarrow> (Threw ''Failed to add card'', prev)
      | Success st created \<Rightarrow> (Done, addCard_merge sectionId created prev))"

definition updateCard :: "card_json response \<Rightarrow> card \<Rightarrow> board \<Rightarrow> outcome \<times> board" where
  "updateCard res crd prev =
     (case res of
        Failure st msg \<Rightarrow> (Threw ''Failed to update card'', prev)
      | Success st updated \<Rightarrow> (Done, updateCard_merge crd updated prev))"

definition deleteCard :: "unit response \<Rightarrow> string \<Rightarrow> board \<Rightarrow> outcome \<times> board" where
  "deleteCard res cardId prev =
     (case res of
        Failure st msg \<Rightarrow> (Threw ''Failed to delete card'', prev)
      | Success st u \<Rightarrow> (Done, deleteCard_merge cardId prev))"

definition moveCard ::
    "card_json response \<Rightarrow> string \<Rightarrow> string \<Rightarrow> board \<Rightarrow> outcome \<times> board" where
  "moveCard res cardId targetSectionId prev =
     (case res of
        Failure st msg \<Rightarrow> (Threw ''Failed to move card'', prev)
      | Success st moved \<Rightarrow> (Done, moveCard_merge cardId targetSectionId moved prev))"

section \<open>The board page (src/pages/Index.tsx)\<close>

subsection \<open>Handlers\<close>

text \<open>
  What a handler does besides returning: the hook operations it starts (it does not await
  them) and the toasts it shows. A handler never calls \<open>setBoard\<close> itself.
\<close>

datatype ui_effect =
    CallMoveCard string string
  | CallDeleteSection string
  | Toast string string

record drag_end_event =
  active_id :: string
  over_id :: "string option"

definition handleDragEnd :: "board \<Rightarrow> drag_end_event \<Rightarrow> ui_effect list" where
  "handleDragEnd b event =
     (case over_id event of
        None \<Rightarrow> []
      | Some dropId \<Rightarrow>
          (let cardId = active_id event;
               currentSection =
                 find (\<lambda>s. \<exists>c \<in> set (cards s). card_id c = cardId) (sections b);
               currentSectionId = map_option section_id currentSection;
               targetSection = find (\<lambda>s. section_id s = dropId) (sections b)
           in case targetSection of
                None \<Rightarrow> []
              | Some target \<Rightarrow>
                  (let targetSectionId = section_id target
                   in if targetSectionId = [] \<or> Some targetSectionId = currentSectionId
                      then []
                      else [CallMoveCard cardId targetSectionId,
                            Toast ''Card moved''
                              (''Card moved to '' @ [CHR 0x22] @ section_title target
                                 @ [CHR 0x22])])))"

definition handleDeleteSection :: "board \<Rightarrow> string \<Rightarrow> ui_effect list" where
  "handleDeleteSection b sectionId =
     (case find (\<lambda>s. section_id s = sectionId) (sections b) of
        None \<Rightarrow> []
      | Some sec \<Rightarrow>
          if canDelete sec
          then [CallDeleteSection sectionId,
                Toast ''Section deleted''
                  ([CHR 0x22] @ section_title sec @ [CHR 0x22]
                     @ '' section and its cards moved to Backlog'')]
          else [])"

fun remote_calls :: "ui_effect list \<Rightarrow> nat" where
  "remote_calls [] = 0"
| "remote_calls (CallMoveCard c t # es) = Suc (remote_calls es)"
| "remote_calls (CallDeleteSection s # es) = Suc (remote_calls es)"
| "remote_calls (Toast t d # es) = remote_calls es"

subsection \<open>Filter state (hooks/useFilters)\<close>

datatype sort_mode = SortDate | PriorityLowHigh | PriorityHighLow | PriorityNormalFirst

record filter_state =
  priorities :: "priority list"
  executors :: "string list"
  multiFilter :: bool
  sortBy :: sort_mode

subsection \<open>Filtering and sorting\<close>

definition card_matches :: "filter_state \<Rightarrow> card \<Rightarrow> bool" where
  "card_matches filters c =
     (let priorityMatch = (length (priorities filters) = 0 \<or> priority c \<in> set (priorities filters));
          executorMatch = (length (executors filters) = 0 \<or> executor c \<in> set (executors filters))
      in if multiFilter filters
         then priorityMatch \<and> executorMatch
         else priorityMatch \<or> executorMatch)"

fun priorityOrder :: "priority \<Rightarrow> int" where
  "priorityOrder Low = 1"
| "priorityOrder Normal = 2"
| "priorityOrder High = 3"

text \<open>\<open>getTime\<close> of an invalid date is NaN, written \<open>None\<close>.\<close>

fun getTime :: "date \<Rightarrow> int option" where
  "getTime InvalidDate = None"
| "getTime (Date t) = Some t"

text \<open>
  The comparators of the four sort modes. A comparator that yields NaN counts as \<open>0\<close>
  for \<open>Array.prototype.sort\<close>.
\<close>

fun comparator :: "sort_mode \<Rightarrow> card \<Rightarrow> card \<Rightarrow> int" where
  "comparator SortDate a b =
     (case (getTime (createdAt a), getTime (createdAt b)) of
        (Some x, Some y) \<Rightarrow> x - y
      | _ \<Rightarrow> 0)"
| "comparator PriorityLowHigh a b = priorityOrder (priority a) - priorityOrder (priority b)"
| "comparator PriorityHighLow a b = priorityOrder (priority b) - priorityOrder (priority a)"
| "comparator PriorityNormalFirst a b =
     (if priority a = Normal \<and> priority b \<noteq> Normal then - 1
      else if priority a \<noteq> Normal \<and> priority b = Normal then 1
      else priorityOrder (priority a) - priorityOrder (priority b))"

text \<open>
  \<open>Array.prototype.sort\<close> with a consistent comparator is a stable sort, whatever the
  engine; it is modelled by insertion sort, which places an element before the first element
  it does not exceed. The three priority comparators are consistent, and so is the date
  comparator on valid dates, which is all the API sends. On an array that holds an invalid
  date the date comparator is not consistent; the language then leaves the order to the
  engine, every engine still returns a permutation of the array, and the order given here is
  insertion sort's, not that of a particular engine.
\<close>

fun insert_by :: "('a \<Rightarrow> 'a \<Rightarrow> int) \<Rightarrow> 'a \<Rightarrow> 'a list \<Rightarrow> 'a list" where
  "insert_by cmp x [] = [x]"
| "insert_by cmp x (y # ys) = (if cmp x y \<le> 0 then x # y # ys else y # insert_by cmp x ys)"

definition js_sort :: "('a \<Rightarrow> 'a \<Rightarrow> int) \<Rightarrow> 'a list \<Rightarrow> 'a list" where
  "js_sort cmp xs = foldr (insert_by cmp) xs []"

subsection \<open>Arrays of cards as objects with identity\<close>

text \<open>
  \<open>sort\<close> reorders the array it is called on, so whether the view touches the store
  depends on which array that is. Card arrays therefore live in a heap: an address is an
  index into the list of allocated arrays, and a new array takes the next index.
\<close>

type_synonym addr = nat
type_synonym heap = "card list list"

definition deref :: "heap \<Rightarrow> addr \<Rightarrow> card list" where
  "deref h a = (if a < length h then h ! a else [])"

definition alloc :: "card list \<Rightarrow> heap \<Rightarrow> addr \<times> heap" where
  "alloc xs h = (length h, h @ [xs])"

definition sort_in_place :: "(card \<Rightarrow> card \<Rightarrow> int) \<Rightarrow> addr \<Rightarrow> heap \<Rightarrow> heap" where
  "sort_in_place cmp a h = (if a < length h then h[a := js_sort cmp (h ! a)] else h)"

text \<open>A section object of the store: its \<open>cards\<close> field refers to an array.\<close>

record stored_section =
  ss_id :: string
  ss_title :: string
  ss_cards :: addr
  ss_canDelete :: bool

definition section_of :: "heap \<Rightarrow> stored_section \<Rightarrow> section" where
  "section_of h s =
     \<lparr>section_id = ss_id s, section_title = ss_title s, cards = deref h (ss_cards s),
      canDelete = ss_canDelete s\<rparr>"

definition getFilteredAndSortedCards :: "filter_state \<Rightarrow> addr \<Rightarrow> heap \<Rightarrow> addr \<times> heap" where
  "getFilteredAndSortedCards filters cardsRef h =
     (let (filtered, h1) = alloc (deref h cardsRef) h;
          (filtered, h2) =
            (if length (priorities filters) > 0 \<or> length (executors filters) > 0
             then alloc (filter (card_matches filters) (deref h1 cardsRef)) h1
             else (filtered, h1))
      in (filtered, sort_in_place (comparator (sortBy filters)) filtered h2))"

text \<open>\<open>filteredBoard.sections\<close>: a new array of new section objects.\<close>

fun filteredBoard_sections ::
    "filter_state \<Rightarrow> stored_section list \<Rightarrow> heap \<Rightarrow> stored_section list \<times> heap" where
  "filteredBoard_sections filters [] h = ([], h)"
| "filteredBoard_sections filters (s # ss) h =
     (let (r, h1) = getFilteredAndSortedCards filters (ss_cards s) h;
          (rest, h2) = filteredBoard_sections filters ss h1
      in (s\<lparr>ss_cards := r\<rparr> # rest, h2))"

section \<open>The API routes (server/src/routes/api.ts)\<close>

subsection \<open>Tables\<close>

text \<open>
  The tables of the migrations, as lists of rows in insertion order. Every \<open>id\<close> is a
  primary key; a section refers to its project, a card to its section, a comment to its card,
  each \<open>ON DELETE CASCADE\<close>. \<open>card_assignees\<close> is the join table of cards and users.
\<close>

record project_row =
  pr_id :: string
  pr_title :: string

record section_row =
  sr_id :: string
  sr_title :: string
  sr_canDelete :: bool
  sr_projectId :: string

record card_row =
  cr_id :: string
  cr_title :: string
  cr_description :: string
  cr_priority :: priority
  cr_executor :: string
  cr_createdAt :: int
  cr_sectionId :: string

record comment_row =
  cmr_id :: string
  cmr_text :: string
  cmr_createdAt :: int
  cmr_cardId :: string
  cmr_authorId :: string

record db =
  project_rows :: "project_row list"
  section_rows :: "section_row list"
  card_rows :: "card_row list"
  comment_rows :: "comment_row list"
  user_rows :: "user_lite list"
  card_assignees :: "(string \<times> string) list"

subsection \<open>Prisma operations\<close>

text \<open>
  The Prisma client calls the routes make, after Prisma's documented behaviour: \<open>findFirst\<close>
  is \<^const>\<open>find\<close>, \<open>findMany\<close> is \<^const>\<open>filter\<close> followed by a sort for \<open>orderBy\<close>,
  \<open>deleteMany\<close> and \<open>updateMany\<close> never throw, and \<open>create\<close>, \<open>update\<close> and
  \<open>delete\<close> throw (\<open>None\<close>) on a duplicate key, a missing row or a dangling reference.
\<close>

definition comment_deleteMany :: "(comment_row \<Rightarrow> bool) \<Rightarrow> db \<Rightarrow> db" where
  "comment_deleteMany P d = d\<lparr>comment_rows := filter (\<lambda>cm. \<not> P cm) (comment_rows d)\<rparr>"

definition card_deleteMany :: "(card_row \<Rightarrow> bool) \<Rightarrow> db \<Rightarrow> db" where
  "card_deleteMany P d =
     (let gone = map cr_id (filter P (card_rows d))
      in d\<lparr>card_rows := filter (\<lambda>c. \<not> P c) (card_rows d),
           comment_rows := filter (\<lambda>cm. cmr_cardId cm \<notin> set gone) (comment_rows d),
           card_assignees := filter (\<lambda>(c, u). c \<notin> set gone) (card_assignees d)\<rparr>)"

definition section_deleteMany :: "(section_row \<Rightarrow> bool) \<Rightarrow> db \<Rightarrow> db" where
  "section_deleteMany P d =
     (let gone = map sr_id (filter P (section_rows d));
          d1 = card_deleteMany (\<lambda>c. cr_sectionId c \<in> set gone) d
      in d1\<lparr>section_rows := filter (\<lambda>s. \<not> P s) (section_rows d1)\<rparr>)"

definition section_delete :: "string \<Rightarrow> db \<Rightarrow> db option" where
  "section_delete i d =
     (if i \<in> set (map sr_id (section_rows d))
      then Some (section_deleteMany (\<lambda>s. sr_id s = i) d)
      else None)"

definition card_delete :: "string \<Rightarrow> db \<Rightarrow> db option" where
  "card_delete i d =
     (if i \<in> set (map cr_id (card_rows d))
      then Some (card_deleteMany (\<lambda>c. cr_id c = i) d)
      else None)"

definition card_updateMany :: "(card_row \<Rightarrow> bool) \<Rightarrow> (card_row \<Rightarrow> card_row) \<Rightarrow> db \<Rightarrow> db" where
  "card_updateMany P f d = d\<lparr>card_rows := map (\<lambda>c. if P c then f c else c) (card_rows d)\<rparr>"

definition section_create :: "section_row \<Rightarrow> db \<Rightarrow> db option" where
  "section_create row d =
     (if sr_id row \<in> set (map sr_id (section_rows d))
         \<or> sr_projectId row \<notin> set (map pr_id (project_rows d))
      then None
      else Some (d\<lparr>section_rows := section_rows d @ [row]\<rparr>))"

definition card_create :: "card_row \<Rightarrow> db \<Rightarrow> db option" where
  "card_create row d =
     (if cr_id row \<in> set (map cr_id (card_rows d))
         \<or> cr_sectionId row \<notin> set (map sr_id (section_rows d))
      then None
      else Some (d\<lparr>card_rows := card_rows d @ [row]\<rparr>))"

definition card_update :: "string \<Rightarrow> (card_row \<Rightarrow> card_row) \<Rightarrow> db \<Rightarrow> (card_row \<times> db) option" where
  "card_update i f d =
     (case find (\<lambda>c. cr_id c = i) (card_rows d) of
        None \<Rightarrow> None
      | Some row \<Rightarrow>
          if cr_sectionId (f row) \<notin> set (map sr_id (section_rows d)) then None
          else Some (f row, card_updateMany (\<lambda>c. cr_id c = i) f d))"

text \<open>\<open>where: { section: { projectId } }\<close>: the card's section belongs to the project.\<close>

definition card_in_project :: "db \<Rightarrow> string \<Rightarrow> card_row \<Rightarrow> bool" where
  "card_in_project d projectId c =
     (\<exists>s \<in> set (section_rows d). sr_id s = cr_sectionId c \<and> sr_projectId s = projectId)"

definition comments_of :: "db \<Rightarrow> string \<Rightarrow> comment list" where
  "comments_of d cardId =
     map (\<lambda>cm. \<lparr>cm_id = cmr_id cm, cm_text = cmr_text cm, cm_createdAt = Date (cmr_createdAt cm),
               cm_author = None\<rparr>)
         (filter (\<lambda>cm. cmr_cardId cm = cardId) (comment_rows d))"

text \<open>
  \<open>include: { assignees: ... }\<close>: the users joined to the card, read through the unique
  index of the join table on (card, user), hence in the order of their ids.
\<close>

definition assignees_of :: "db \<Rightarrow> string \<Rightarrow> user_lite list" where
  "assignees_of d cardId =
     sort_key ul_id (filter (\<lambda>u. (cardId, ul_id u) \<in> set (card_assignees d)) (user_rows d))"

definition card_reply :: "db \<Rightarrow> card_row \<Rightarrow> card_json" where
  "card_reply d row =
     \<lparr>cj_id = cr_id row, cj_title = cr_title row, cj_description = cr_description row,
      cj_priority = cr_priority row, cj_executor = cr_executor row,
      cj_comments = Some (comments_of d (cr_id row)),
      cj_createdAt = Some (Date (cr_createdAt row)),
      cj_sectionId = cr_sectionId row,
      cj_assignees = Some (assignees_of d (cr_id row))\<rparr>"

definition findSectionById :: "db \<Rightarrow> string \<Rightarrow> string \<Rightarrow> section_row option" where
  "findSectionById d projectId sectionId =
     find (\<lambda>s. sr_id s = sectionId \<and> sr_projectId s = projectId) (section_rows d)"

subsection \<open>Board and section routes\<close>

definition get_board :: "string \<Rightarrow> db \<Rightarrow> board response" where
  "get_board projectId d =
     (case find (\<lambda>p. pr_id p = projectId) (project_rows d) of
        None \<Rightarrow> Failure 404 ''Project not found''
      | Some project \<Rightarrow>
          (let secs = sort_key sr_title (filter (\<lambda>s. sr_projectId s = projectId) (section_rows d));
               cs = sort_key cr_createdAt (filter (card_in_project d projectId) (card_rows d));
               bySection = (\<lambda>i.
                 map (\<lambda>c. \<lparr>card_id = cr_id c, card_title = cr_title c,
                           description = cr_description c, priority = cr_priority c,
                           executor = cr_executor c, comments = comments_of d (cr_id c),
                           createdAt = Date (cr_createdAt c), card_sectionId = cr_sectionId c,
                           assignees = Some (assignees_of d (cr_id c))\<rparr>)
                     (filter (\<lambda>c. cr_sectionId c = i) cs))
           in Success 200
                \<lparr>board_id = projectId @ ''-board'', board_title = pr_title project,
                 sections =
                   map (\<lambda>s. \<lparr>section_id = sr_id s, section_title = sr_title s,
                             cards = bySection (sr_id s), canDelete = sr_canDelete s\<rparr>)
                       secs\<rparr>))"

text \<open>The new row's id is generated by the database; it is an argument here.\<close>

definition post_section :: "string \<Rightarrow> string \<Rightarrow> string \<Rightarrow> db \<Rightarrow> section response \<times> db" where
  "post_section newId projectId title d =
     (if length title < 1 then (Failure 400 ''ZodError'', d)
      else case find (\<lambda>p. pr_id p = projectId) (project_rows d) of
        None \<Rightarrow> (Failure 404 ''Project not found'', d)
      | Some project \<Rightarrow>
          (case section_create
                  \<lparr>sr_id = newId, sr_title = title, sr_canDelete = True, sr_projectId = projectId\<rparr> d of
             None \<Rightarrow> (Failure 500 ''Failed to create section'', d)
           | Some d' \<Rightarrow>
               (Success 201
                  \<lparr>section_id = newId, section_title = title, cards = [], canDelete = True\<rparr>,
                d')))"

definition delete_section :: "string \<Rightarrow> string \<Rightarrow> db \<Rightarrow> unit response \<times> db" where
  "delete_section projectId i d =
     (case find (\<lambda>s. sr_id s = i \<and> sr_projectId s = projectId) (section_rows d) of
        None \<Rightarrow> (Failure 404 ''Section not found'', d)
      | Some sec \<Rightarrow>
          if \<not> sr_canDelete sec then (Failure 400 ''Backlog cannot be deleted'', d)
          else
            (let cardIds = map cr_id (filter (\<lambda>c. cr_sectionId c = i) (card_rows d));
                 d1 = comment_deleteMany (\<lambda>cm. cmr_cardId cm \<in> set cardIds) d;
                 d2 = card_deleteMany (\<lambda>c. cr_id c \<in> set cardIds) d1
             in case section_delete i d2 of
                  None \<Rightarrow> (Failure 500 ''Failed to delete section'', d)
                | Some d3 \<Rightarrow> (Success 200 (), d3)))"

definition post_section_clear :: "string \<Rightarrow> string \<Rightarrow> db \<Rightarrow> section response \<times> db" where
  "post_section_clear projectId i d =
     (case find (\<lambda>s. sr_id s = i \<and> sr_projectId s = projectId) (section_rows d) of
        None \<Rightarrow> (Failure 404 ''Section not found'', d)
      | Some sec \<Rightarrow>
          (let cardIds = map cr_id (filter (\<lambda>c. cr_sectionId c = i) (card_rows d));
               d' = (if length cardIds \<noteq> 0
                     then card_deleteMany (\<lambda>c. cr_id c \<in> set cardIds)
                            (comment_deleteMany (\<lambda>cm. cmr_cardId cm \<in> set cardIds) d)
                     else d)
           in (Success 200
                 \<lparr>section_id = sr_id sec, section_title = sr_title sec, cards = [],
                  canDelete = sr_canDelete sec\<rparr>,
               d')))"

definition post_sections_delete_all :: "string \<Rightarrow> db \<Rightarrow> section list response \<times> db" where
  "post_sections_delete_all projectId d =
     (let secs = filter (\<lambda>s. sr_projectId s = projectId) (section_rows d)
      in case find (\<lambda>s. sr_title s = ''Backlog'') secs of
           None \<Rightarrow> (Failure 400 ''Backlog section missing'', d)
         | Some backlog \<Rightarrow>
             (let deletable = filter sr_canDelete secs;
                  ids = map sr_id deletable;
                  d1 = card_updateMany (\<lambda>c. cr_sectionId c \<in> set ids)
                         (\<lambda>c. c\<lparr>cr_sectionId := sr_id backlog\<rparr>) d;
                  d2 = section_deleteMany (\<lambda>s. sr_id s \<in> set ids) d1
              in (Success 200
                    [\<lparr>section_id = sr_id backlog, section_title = sr_title backlog, cards = [],
                      canDelete = sr_canDelete backlog\<rparr>],
                  d2)))"

subsection \<open>Card routes\<close>

text \<open>The JSON body of the create and update requests, as the zod schemas parse it.\<close>

record card_body =
  cb_title :: string
  cb_description :: string
  cb_priority :: priority
  cb_executor :: string
  cb_sectionId :: "string option"

text \<open>The new row's id and creation time come from the database; they are arguments here.\<close>

definition post_card ::
    "string \<Rightarrow> int \<Rightarrow> string \<Rightarrow> string \<Rightarrow> card_body \<Rightarrow> db \<Rightarrow> card_json response \<times> db" where
  "post_card newId now projectId secId body d =
     (if length (cb_title body) < 1 then (Failure 400 ''ZodError'', d)
      else case findSectionById d projectId secId of
        None \<Rightarrow> (Failure 404 ''Section not found'', d)
      | Some sec \<Rightarrow>
          (case card_create
                  \<lparr>cr_id = newId, cr_title = cb_title body, cr_description = cb_description body,
                   cr_priority = cb_priority body, cr_executor = cb_executor body,
                   cr_createdAt = now, cr_sectionId = secId\<rparr> d of
             None \<Rightarrow> (Failure 500 ''Failed to add card'', d)
           | Some d' \<Rightarrow>
               (Success 201
                  \<lparr>cj_id = newId, cj_title = cb_title body, cj_description = cb_description body,
                   cj_priority = cb_priority body, cj_executor = cb_executor body,
                   cj_comments = Some [], cj_createdAt = Some (Date now),
                   cj_sectionId = secId, cj_assignees = None\<rparr>,
                d')))"

definition put_card :: "string \<Rightarrow> string \<Rightarrow> card_body \<Rightarrow> db \<Rightarrow> card_json response \<times> db" where
  "put_card projectId cardId body d =
     (if length (cb_title body) < 1 then (Failure 400 ''ZodError'', d)
      else if (case cb_sectionId body of
                 None \<Rightarrow> False
               | Some secId \<Rightarrow> secId \<noteq> [] \<and> findSectionById d projectId secId = None)
      then (Failure 400 ''Target section not found'', d)
      else case card_update cardId
                  (\<lambda>c. c\<lparr>cr_title := cb_title body, cr_description := cb_description body,
                         cr_priority := cb_priority body, cr_executor := cb_executor body,
                         cr_sectionId := (case cb_sectionId body of
                                            None \<Rightarrow> cr_sectionId c
                                          | Some secId \<Rightarrow> secId)\<rparr>) d of
             None \<Rightarrow> (Failure 404 ''Card not found'', d)
           | Some (updated, d') \<Rightarrow> (Success 200 (card_reply d' updated), d'))"

text \<open>The two deletions are not in one transaction: the comments go first.\<close>

definition delete_card :: "string \<Rightarrow> string \<Rightarrow> db \<Rightarrow> unit response \<times> db" where
  "delete_card projectId cardId d =
     (let d1 = comment_deleteMany (\<lambda>cm. cmr_cardId cm = cardId) d
      in case card_delete cardId d1 of
           None \<Rightarrow> (Failure 404 ''Card not found'', d1)
         | Some d2 \<Rightarrow> (Success 200 (), d2))"

definition post_card_move :: "string \<Rightarrow> string \<Rightarrow> string \<Rightarrow> db \<Rightarrow> card_json response \<times> db" where
  "post_card_move projectId cardId targetSectionId d =
     (if length targetSectionId < 1 then (Failure 400 ''ZodError'', d)
      else case findSectionById d projectId targetSectionId of
        None \<Rightarrow> (Failure 400 ''Target section not found'', d)
      | Some to \<Rightarrow>
          (case card_update cardId (\<lambda>c. c\<lparr>cr_sectionId := sr_id to\<rparr>) d of
             None \<Rightarrow> (Failure 404 ''Card not found'', d)
           | Some (moved, d') \<Rightarrow> (Success 200 (card_reply d' moved), d')))"

subsection \<open>Assignee routes\<close>

text \<open>
  \<open>connect\<close> throws when the user does not exist and is idempotent on a pair that is
  already connected; \<open>disconnect\<close> of a pair that is not connected changes nothing.
\<close>

definition post_assignee :: "string \<Rightarrow> string \<Rightarrow> string \<Rightarrow> db \<Rightarrow> user_lite list response \<times> db" where
  "post_assignee projectId cardId userId d =
     (if length userId < 1 then (Failure 400 ''ZodError'', d)
      else case find (\<lambda>c. cr_id c = cardId \<and> card_in_project d projectId c) (card_rows d) of
        None \<Rightarrow> (Failure 404 ''Card not found'', d)
      | Some c \<Rightarrow>
          if userId \<notin> set (map ul_id (user_rows d))
          then (Failure 500 ''Failed to assign user'', d)
          else
            (let d' = (if (cardId, userId) \<in> set (card_assignees d) then d
                       else d\<lparr>card_assignees := card_assignees d @ [(cardId, userId)]\<rparr>)
             in (Success 201 (assignees_of d' cardId), d')))"

definition delete_assignee :: "string \<Rightarrow> string \<Rightarrow> string \<Rightarrow> db \<Rightarrow> user_lite list response \<times> db" where
  "delete_assignee projectId cardId userId d =
     (case find (\<lambda>c. cr_id c = cardId \<and> card_in_project d projectId c) (card_rows d) of
        None \<Rightarrow> (Failure 404 ''Card not found'', d)
      | Some c \<Rightarrow>
          (let d' = d\<lparr>card_assignees :=
                        filter (\<lambda>p. p \<noteq> (cardId, userId)) (card_assignees d)\<rparr>
           in (Success 200 (assignees_of d' cardId), d')))"

subsection \<open>Project route\<close>

text \<open>
  A transaction of \<open>create\<close> calls: all rows are inserted, or none when one of them
  throws.
\<close>

fun create_sections :: "section_row list \<Rightarrow> db \<Rightarrow> db option" where
  "create_sections [] d = Some d"
| "create_sections (r # rs) d =
     (case section_create r d of None \<Rightarrow> None | Some d' \<Rightarrow> create_sections rs d')"

text \<open>
  \<open>POST /projects\<close>: the project row, then its four default sections in one
  transaction. The ids are generated by the database and \<open>stamp\<close> is the text of
  \<open>Date.now()\<close>; they are arguments here.
\<close>

definition post_project ::
    "string \<Rightarrow> string \<Rightarrow> string \<Rightarrow> string \<Rightarrow> string \<Rightarrow> string \<Rightarrow> string option \<Rightarrow> db
       \<Rightarrow> project_row response \<times> db" where
  "post_project newId i1 i2 i3 i4 stamp title d =
     (let t = (case title of
                 None \<Rightarrow> ''project-'' @ stamp
               | Some x \<Rightarrow> if x = [] then ''project-'' @ stamp else x)
      in if newId \<in> set (map pr_id (project_rows d))
         then (Failure 500 ''Failed to create project'', d)
         else
           (let d1 = d\<lparr>project_rows := project_rows d @ [\<lparr>pr_id = newId, pr_title = t\<rparr>]\<rparr>
            in case create_sections
                      [\<lparr>sr_id = i1, sr_title = ''Backlog'', sr_canDelete = False,
                        sr_projectId = newId\<rparr>,
                       \<lparr>sr_id = i2, sr_title = ''To Do'', sr_canDelete = True,
                        sr_projectId = newId\<rparr>,
                       \<lparr>sr_id = i3, sr_title = ''Review'', sr_canDelete = True,
                        sr_projectId = newId\<rparr>,
                       \<lparr>sr_id = i4, sr_title = ''Done'', sr_canDelete = True,
                        sr_projectId = newId\<rparr>] d1 of
                 None \<Rightarrow> (Failure 500 ''Failed to create project'', d1)
               | Some d2 \<Rightarrow> (Success 201 \<lparr>pr_id = newId, pr_title = t\<rparr>, d2)))"

section \<open>The hook against the routes\<close>

text \<open>
  One mutation operation of the hook, run against the database behind the API: the request
  the hook sends is answered by the route, and the hook merges the reply. The project id is
  the one in the page's URL. A state of the whole is the database and the board of the hook.
\<close>

datatype operation =
    AddSection string string
  | DeleteSection string
  | ClearSection string
  | DeleteAllSections
  | AddCard string int string card
  | UpdateCard card
  | DeleteCard string
  | MoveCard string string
  | AssignUser string string
  | UnassignUser string string

definition request_body :: "card \<Rightarrow> string option \<Rightarrow> card_body" where
  "request_body crd sec =
     \<lparr>cb_title = card_title crd, cb_description = description crd, cb_priority = priority crd,
      cb_executor = executor crd, cb_sectionId = sec\<rparr>"

fun run :: "string \<Rightarrow> operation \<Rightarrow> db \<times> board \<Rightarrow> outcome \<times> db \<times> board" where
  "run projectId (AddSection newId title) (d, b) =
     (let (res, d') = post_section newId projectId title d;
          (out, b') = addSection res title b
      in (out, d', b'))"
| "run projectId (DeleteSection secId) (d, b) =
     (let (res, d') = delete_section projectId secId d;
          (out, b') = deleteSection res (get_board projectId d') secId b
      in (out, d', b'))"
| "run projectId (ClearSection secId) (d, b) =
     (let (res, d') = post_section_clear projectId secId d;
          (out, b') = clearSection res (get_board projectId d') secId b
      in (out, d', b'))"
| "run projectId DeleteAllSections (d, b) =
     (let (res, d') = post_sections_delete_all projectId d;
          (out, b') = deleteAllSections res (get_board projectId d') b
      in (out, d', b'))"
| "run projectId (AddCard newId now secId crd) (d, b) =
     (let (res, d') = post_card newId now projectId secId (request_body crd None) d;
          (out, b') = addCard res secId crd b
      in (out, d', b'))"
| "run projectId (UpdateCard crd) (d, b) =
     (let (res, d') = put_card projectId (card_id crd)
                        (request_body crd (Some (card_sectionId crd))) d;
          (out, b') = updateCard res crd b
      in (out, d', b'))"
| "run projectId (DeleteCard cardId) (d, b) =
     (let (res, d') = delete_card projectId cardId d;
          (out, b') = deleteCard res cardId b
      in (out, d', b'))"
| "run projectId (MoveCard cardId targetSectionId) (d, b) =
     (let (res, d') = post_card_move projectId cardId targetSectionId d;
          (out, b') = moveCard res cardId targetSectionId b
      in (out, d', b'))"
| "run projectId (AssignUser cardId userId) (d, b) =
     (let (res, d') = post_assignee projectId cardId userId d;
          (out, b') = assignUser res cardId userId b
      in (out, d', b'))"
| "run projectId (UnassignUser cardId userId) (d, b) =
     (let (res, d') = delete_assignee projectId cardId userId d;
          (out, b') = unassignUser res cardId userId b
      in (out, d', b'))"

fun run_all :: "string \<Rightarrow> operation list \<Rightarrow> db \<times> board \<Rightarrow> db \<times> board" where
  "run_all projectId [] w = w"
| "run_all projectId (x # xs) w = run_all projectId xs (snd (run projectId x w))"

subsection \<open>Properties of a board\<close>

definition card_ids :: "section \<Rightarrow> string list" where
  "card_ids s = map card_id (cards s)"

definition board_card_ids :: "board \<Rightarrow> string list" where
  "board_card_ids b = concat (map card_ids (sections b))"

text \<open>The sections whose card sequence lists a card with the given id.\<close>

definition holders :: "board \<Rightarrow> string \<Rightarrow> section list" where
  "holders b i = filter (\<lambda>s. i \<in> set (card_ids s)) (sections b)"


definition section_ids :: "board \<Rightarrow> string list" where
  "section_ids b = map section_id (sections b)"

text \<open>The section rows that are not deletable.\<close>

definition fixed_rows :: "db \<Rightarrow> section_row list" where
  "fixed_rows d = filter (\<lambda>r. \<not> sr_canDelete r) (section_rows d)"

text \<open>The board lists every section of the project that is not deletable, as not deletable.\<close>

definition shows_fixed_sections :: "string \<Rightarrow> db \<Rightarrow> board \<Rightarrow> bool" where
  "shows_fixed_sections projectId d b =
     (\<forall>row \<in> set (fixed_rows d).
        sr_projectId row = projectId \<longrightarrow>
        (\<exists>s \<in> set (sections b). section_id s = sr_id row \<and> \<not> canDelete s))"

subsection \<open>Handlers against the routes\<close>

text \<open>The state once the operations a handler started have settled.\<close>

fun settle :: "string \<Rightarrow> ui_effect list \<Rightarrow> db \<times> board \<Rightarrow> db \<times> board" where
  "settle projectId [] w = w"
| "settle projectId (CallMoveCard c t # es) w =
     settle projectId es (snd (run projectId (MoveCard c t) w))"
| "settle projectId (CallDeleteSection s # es) w =
     settle projectId es (snd (run projectId (DeleteSection s) w))"
| "settle projectId (Toast t m # es) w = settle projectId es w"

subsection \<open>A small project\<close>

definition demo_card :: card where
  "demo_card =
     \<lparr>card_id = ''c1'', card_title = ''T'', description = [], priority = High,
      executor = ''Bob'', comments = [], createdAt = Date 1000, card_sectionId = ''s2'',
      assignees = Some []\<rparr>"

definition demo_board :: board where
  "demo_board =
     \<lparr>board_id = ''p-board'', board_title = ''P'',
      sections =
        [\<lparr>section_id = ''s1'', section_title = ''Backlog'', cards = [], canDelete = False\<rparr>,
         \<lparr>section_id = ''s2'', section_title = ''To Do'', cards = [demo_card],
          canDelete = True\<rparr>]\<rparr>"

definition demo_db :: db where
  "demo_db =
     \<lparr>project_rows = [\<lparr>pr_id = ''p'', pr_title = ''P''\<rparr>],
      section_rows =
        [\<lparr>sr_id = ''s1'', sr_title = ''Backlog'', sr_canDelete = False, sr_projectId = ''p''\<rparr>,
         \<lparr>sr_id = ''s2'', sr_title = ''To Do'', sr_canDelete = True, sr_projectId = ''p''\<rparr>],
      card_rows =
        [\<lparr>cr_id = ''c1'', cr_title = ''T'', cr_description = [], cr_priority = High,
          cr_executor = ''Bob'', cr_createdAt = 1000, cr_sectionId = ''s2''\<rparr>],
      comment_rows = [],
      user_rows = [\<lparr>ul_id = ''u1'', ul_name = ''Bob'', ul_email = ''bob@example.org''\<rparr>],
      card_assignees = []\<rparr>"

definition demo_reply :: card_json where
  "demo_reply =
     \<lparr>cj_id = ''c1'', cj_title = ''T'', cj_description = [], cj_priority = High,
      cj_executor = ''Bob'', cj_comments = Some [], cj_createdAt = Some (Date 1000),
      cj_sectionId = ''s1'', cj_assignees = Some []\<rparr>"

definition demo_filters :: filter_state where
  "demo_filters =
     \<lparr>priorities = [High], executors = [''Bob''], multiFilter = False, sortBy = SortDate\<rparr>"

definition demo_cards :: "card list" where
  "demo_cards =
     [demo_card,
      demo_card\<lparr>card_id := ''c2'', priority := Low, executor := ''Alice'',
                createdAt := Date 900\<rparr>,
      demo_card\<lparr>card_id := ''c3'', executor := ''Alice'', createdAt := Date 800\<rparr>,
      demo_card\<lparr>card_id := ''c4'', priority := Low, createdAt := Date 700\<rparr>]"

definition demo_store :: "stored_section list" where
  "demo_store =
     [\<lparr>ss_id = ''s1'', ss_title = ''Backlog'', ss_cards = 0, ss_canDelete = False\<rparr>,
      \<lparr>ss_id = ''s2'', ss_title = ''To Do'', ss_cards = 1, ss_canDelete = True\<rparr>]"

definition demo_heap :: heap where
  "demo_heap = [[], demo_cards]"


definition demo_backlog_row :: section_row where
  "demo_backlog_row =
     \<lparr>sr_id = ''s1'', sr_title = ''Backlog'', sr_canDelete = False, sr_projectId = ''p''\<rparr>"

section \<open>Verification\<close>

subsection \<open>Failed remote calls\<close>

text \<open>
  Claim C4. When the remote call of a mutation operation returns a reply that is not ok, the
  operation throws to its caller and the board of the hook is exactly the board before the
  call. This holds for each of the ten operations, whatever the reply to a later refetch
  would have been.
\<close>

theorem failed_call_leaves_board:
  "(\<not> ok rs \<longrightarrow> addSection rs title b = (Threw ''Failed to create section'', b)) \<and>
   (\<not> ok ru \<longrightarrow> deleteSection ru reply secId b = (Threw ''Failed to delete section'', b)) \<and>
   (\<not> ok rs \<longrightarrow> clearSection rs reply secId b = (Threw ''Failed to clear section'', b)) \<and>
   (\<not> ok rl \<longrightarrow> deleteAllSections rl reply b = (Threw ''Failed to delete all sections'', b)) \<and>
   (\<not> ok rc \<longrightarrow> addCard rc secId crd b = (Threw ''Failed to add card'', b)) \<and>
   (\<not> ok rc \<longrightarrow> updateCard rc crd b = (Threw ''Failed to update card'', b)) \<and>
   (\<not> ok ru \<longrightarrow> deleteCard ru cardId b = (Threw ''Failed to delete card'', b)) \<and>
   (\<not> ok rc \<longrightarrow> moveCard rc cardId secId b = (Threw ''Failed to move card'', b)) \<and>
   (\<not> ok ra \<longrightarrow> assignUser ra cardId userId b = (Threw ''Failed to assign user'', b)) \<and>
   (\<not> ok ra \<longrightarrow> unassignUser ra cardId userId b = (Threw ''Failed to unassign user'', b))"
  by (cases rs; cases ru; cases rl; cases rc; cases ra)
     (simp_all add: addSection_def deleteSection_def clearSection_def deleteAllSections_def
        addCard_def updateCard_def deleteCard_def moveCard_def assignUser_def unassignUser_def)

theorem failed_call_leaves_board_witness:
  "addSection (Failure 500 ''Failed to create section'') ''Doing'' demo_board
     = (Threw ''Failed to create section'', demo_board) \<and>
   deleteSection (Failure 400 ''Backlog cannot be deleted'') (Failure 404 ''Project not found'')
       ''s1'' demo_board
     = (Threw ''Failed to delete section'', demo_board) \<and>
   clearSection (Failure 500 ''Failed to create section'') (Failure 404 ''Project not found'')
       ''s1'' demo_board
     = (Threw ''Failed to clear section'', demo_board) \<and>
   deleteAllSections (Failure 400 ''Backlog section missing'') (Failure 404 ''Project not found'')
       demo_board
     = (Threw ''Failed to delete all sections'', demo_board) \<and>
   addCard (Failure 404 ''Card not found'') ''s1'' demo_card demo_board
     = (Threw ''Failed to add card'', demo_board) \<and>
   updateCard (Failure 404 ''Card not found'') demo_card demo_board
     = (Threw ''Failed to update card'', demo_board) \<and>
   deleteCard (Failure 400 ''Backlog cannot be deleted'') ''c1'' demo_board
     = (Threw ''Failed to delete card'', demo_board) \<and>
   moveCard (Failure 404 ''Card not found'') ''c1'' ''s1'' demo_board
     = (Threw ''Failed to move card'', demo_board) \<and>
   assignUser (Failure 500 ''Failed to assign user'') ''c1'' ''u1'' demo_board
     = (Threw ''Failed to assign user'', demo_board) \<and>
   unassignUser (Failure 500 ''Failed to assign user'') ''c1'' ''u1'' demo_board
     = (Threw ''Failed to unassign user'', demo_board)"
  using failed_call_leaves_board
          [where rs = "Failure 500 ''Failed to create section''"
             and ru = "Failure 400 ''Backlog cannot be deleted''"
             and rl = "Failure 400 ''Backlog section missing''"
             and rc = "Failure 404 ''Card not found''"
             and ra = "Failure 500 ''Failed to assign user''"
             and reply = "Failure 404 ''Project not found''"
             and b = demo_board and title = "''Doing''" and secId = "''s1''"
             and crd = demo_card and cardId = "''c1''" and userId = "''u1''"]
  by simp

subsection \<open>The merge of \<open>moveCard\<close>\<close>

lemma moveCard_sections:
  "sections (moveCard_merge cardId t moved b) =
     map (\<lambda>s. s\<lparr>cards := filter (\<lambda>c. card_id c \<noteq> cardId) (cards s)
                          @ (if section_id s = t then [moved_card moved] else [])\<rparr>)
         (sections b)"
  by (simp add: moveCard_merge_def Let_def o_def cong: if_cong)

lemma demo_card_on_board: "''c1'' \<in> set (board_card_ids demo_board)"
  by (simp add: board_card_ids_def card_ids_def demo_board_def demo_card_def)

lemma demo_section_ids: "section_ids demo_board = [''s1'', ''s2'']"
  by (simp add: section_ids_def demo_board_def)

text \<open>
  Claim C10. When the remote call of \<open>moveCard\<close> succeeds and the target section id is
  the id of no section of the local board, the merge removes the card from every section and
  appends it to none: a card that was on the board is on it no longer, so the board changes.
\<close>

theorem moveCard_unknown_target:
  assumes "cardId \<in> set (board_card_ids b)" and "targetSectionId \<notin> set (section_ids b)"
  shows "fst (moveCard (Success st moved) cardId targetSectionId b) = Done \<and>
         sections (snd (moveCard (Success st moved) cardId targetSectionId b)) =
           map (\<lambda>s. s\<lparr>cards := filter (\<lambda>c. card_id c \<noteq> cardId) (cards s)\<rparr>) (sections b) \<and>
         cardId \<notin> set (board_card_ids (snd (moveCard (Success st moved) cardId targetSectionId b))) \<and>
         snd (moveCard (Success st moved) cardId targetSectionId b) \<noteq> b"
proof -
  let ?b' = "snd (moveCard (Success st moved) cardId targetSectionId b)"
  have b': "?b' = moveCard_merge cardId targetSectionId moved b"
    by (simp add: moveCard_def)
  have s: "sections ?b' =
      map (\<lambda>s. s\<lparr>cards := filter (\<lambda>c. card_id c \<noteq> cardId) (cards s)\<rparr>) (sections b)"
    unfolding b' moveCard_sections using assms(2)
    by (auto simp: section_ids_def)
  have n: "cardId \<notin> set (board_card_ids ?b')"
    unfolding board_card_ids_def s by (auto simp: card_ids_def)
  from n assms(1) have "?b' \<noteq> b" by auto
  with s n show ?thesis by (simp add: moveCard_def)
qed

theorem moveCard_unknown_target_witness:
  "''c1'' \<in> set (board_card_ids demo_board) \<and> ''s9'' \<notin> set (section_ids demo_board) \<and>
   ''c1'' \<notin> set (board_card_ids (snd (moveCard (Success 200 demo_reply) ''c1'' ''s9'' demo_board))) \<and>
   snd (moveCard (Success 200 demo_reply) ''c1'' ''s9'' demo_board) \<noteq> demo_board"
proof -
  have h: "''s9'' \<notin> set (section_ids demo_board)"
    by (simp add: demo_section_ids)
  from moveCard_unknown_target[OF demo_card_on_board h, of 200 demo_reply]
  show ?thesis using demo_card_on_board h by blast
qed

lemma moved_card_fields:
  "moved_card moved =
     \<lparr>card_id = cj_id moved, card_title = cj_title moved,
      description = cj_description moved, priority = cj_priority moved,
      executor = cj_executor moved,
      comments = (case cj_comments moved of None \<Rightarrow> [] | Some cms \<Rightarrow> cms),
      createdAt = (case cj_createdAt moved of None \<Rightarrow> InvalidDate | Some t \<Rightarrow> t),
      card_sectionId = cj_sectionId moved, assignees = cj_assignees moved\<rparr>"
proof -
  have "map revive_comment cms = cms" for cms
    by (induction cms) (simp_all add: revive_comment_def new_Date_def)
  then show ?thesis
    by (simp add: moved_card_def new_Date_opt_def new_Date_def split: option.splits)
qed

text \<open>
  Claim C5. For a card on the board and a target section id present on the board, a successful
  \<open>moveCard\<close> filters the card out of every section and appends, at the end of each
  section carrying the target id, a card whose every field is the field of the server's
  reply (no comments when the reply has none); no field of the local copy enters it. So the
  target section ends with the server's card, and outside the target section no card with the
  moved id is left.
\<close>

theorem moveCard_relocates:
  assumes "cardId \<in> set (board_card_ids b)" and "targetSectionId \<in> set (section_ids b)"
  shows "fst (moveCard (Success st moved) cardId targetSectionId b) = Done \<and>
         sections (snd (moveCard (Success st moved) cardId targetSectionId b)) =
           map (\<lambda>s. s\<lparr>cards :=
                  filter (\<lambda>c. card_id c \<noteq> cardId) (cards s)
                  @ (if section_id s = targetSectionId
                     then [\<lparr>card_id = cj_id moved, card_title = cj_title moved,
                            description = cj_description moved, priority = cj_priority moved,
                            executor = cj_executor moved,
                            comments = (case cj_comments moved of None \<Rightarrow> [] | Some cms \<Rightarrow> cms),
                            createdAt = (case cj_createdAt moved of
                                           None \<Rightarrow> InvalidDate | Some t \<Rightarrow> t),
                            card_sectionId = cj_sectionId moved,
                            assignees = cj_assignees moved\<rparr>]
                     else [])\<rparr>)
               (sections b) \<and>
         (\<exists>s \<in> set (sections (snd (moveCard (Success st moved) cardId targetSectionId b))).
            section_id s = targetSectionId) \<and>
         (\<forall>s \<in> set (sections (snd (moveCard (Success st moved) cardId targetSectionId b))).
            if section_id s = targetSectionId
            then cards s \<noteq> [] \<and>
                 card_id (last (cards s)) = cj_id moved \<and>
                 card_title (last (cards s)) = cj_title moved \<and>
                 description (last (cards s)) = cj_description moved \<and>
                 priority (last (cards s)) = cj_priority moved \<and>
                 executor (last (cards s)) = cj_executor moved \<and>
                 comments (last (cards s)) =
                   (case cj_comments moved of None \<Rightarrow> [] | Some cms \<Rightarrow> cms) \<and>
                 createdAt (last (cards s)) =
                   (case cj_createdAt moved of None \<Rightarrow> InvalidDate | Some t \<Rightarrow> t) \<and>
                 card_sectionId (last (cards s)) = cj_sectionId moved \<and>
                 assignees (last (cards s)) = cj_assignees moved \<and>
                 cardId \<notin> set (map card_id (butlast (cards s)))
            else cardId \<notin> set (card_ids s))"
proof -
  let ?b' = "snd (moveCard (Success st moved) cardId targetSectionId b)"
  let ?served = "\<lparr>card_id = cj_id moved, card_title = cj_title moved,
                            description = cj_description moved, priority = cj_priority moved,
                            executor = cj_executor moved,
                            comments = (case cj_comments moved of None \<Rightarrow> [] | Some cms \<Rightarrow> cms),
                            createdAt = (case cj_createdAt moved of
                                           None \<Rightarrow> InvalidDate | Some t \<Rightarrow> t),
                            card_sectionId = cj_sectionId moved,
                            assignees = cj_assignees moved\<rparr>"
  have b': "?b' = moveCard_merge cardId targetSectionId moved b"
    by (simp add: moveCard_def)
  have s: "sections ?b' =
      map (\<lambda>s. s\<lparr>cards := filter (\<lambda>c. card_id c \<noteq> cardId) (cards s)
                                @ (if section_id s = targetSectionId then [?served] else [])\<rparr>)
               (sections b)"
    unfolding b' moveCard_sections moved_card_fields ..
  have e: "\<exists>s \<in> set (sections ?b'). section_id s = targetSectionId"
    unfolding s using assms(2) by (auto simp: section_ids_def)
  have a: "\<forall>s \<in> set (sections ?b').
            if section_id s = targetSectionId
            then cards s \<noteq> [] \<and> last (cards s) = ?served \<and>
                 cardId \<notin> set (map card_id (butlast (cards s)))
            else cardId \<notin> set (card_ids s)"
    unfolding s by (auto simp: card_ids_def)
  have f: "fst (moveCard (Success st moved) cardId targetSectionId b) = Done"
    by (simp add: moveCard_def)
  have a': "\<forall>s \<in> set (sections ?b').
            if section_id s = targetSectionId
            then cards s \<noteq> [] \<and>
                 card_id (last (cards s)) = cj_id moved \<and>
                 card_title (last (cards s)) = cj_title moved \<and>
                 description (last (cards s)) = cj_description moved \<and>
                 priority (last (cards s)) = cj_priority moved \<and>
                 executor (last (cards s)) = cj_executor moved \<and>
                 comments (last (cards s)) =
                   (case cj_comments moved of None \<Rightarrow> [] | Some cms \<Rightarrow> cms) \<and>
                 createdAt (last (cards s)) =
                   (case cj_createdAt moved of None \<Rightarrow> InvalidDate | Some t \<Rightarrow> t) \<and>
                 card_sectionId (last (cards s)) = cj_sectionId moved \<and>
                 assignees (last (cards s)) = cj_assignees moved \<and>
                 cardId \<notin> set (map card_id (butlast (cards s)))
            else cardId \<notin> set (card_ids s)"
  proof
    fix x assume x: "x \<in> set (sections ?b')"
    from a x have "if section_id x = targetSectionId
            then cards x \<noteq> [] \<and> last (cards x) = ?served \<and>
                 cardId \<notin> set (map card_id (butlast (cards x)))
            else cardId \<notin> set (card_ids x)" by (rule bspec)
    then show "if section_id x = targetSectionId
            then cards x \<noteq> [] \<and>
                 card_id (last (cards x)) = cj_id moved \<and>
                 card_title (last (cards x)) = cj_title moved \<and>
                 description (last (cards x)) = cj_description moved \<and>
                 priority (last (cards x)) = cj_priority moved \<and>
                 executor (last (cards x)) = cj_executor moved \<and>
                 comments (last (cards x)) =
                   (case cj_comments moved of None \<Rightarrow> [] | Some cms \<Rightarrow> cms) \<and>
                 createdAt (last (cards x)) =
                   (case cj_createdAt moved of None \<Rightarrow> InvalidDate | Some t \<Rightarrow> t) \<and>
                 card_sectionId (last (cards x)) = cj_sectionId moved \<and>
                 assignees (last (cards x)) = cj_assignees moved \<and>
                 cardId \<notin> set (map card_id (butlast (cards x)))
            else cardId \<notin> set (card_ids x)"
      by (cases "section_id x = targetSectionId") simp_all
  qed
  from f s e a' show ?thesis by (intro conjI)
qed

theorem moveCard_relocates_witness:
  "''c1'' \<in> set (board_card_ids demo_board) \<and> ''s1'' \<in> set (section_ids demo_board) \<and>
   map cards (sections (snd (moveCard (Success 200 demo_reply) ''c1'' ''s1'' demo_board)))
     = [[\<lparr>card_id = ''c1'', card_title = ''T'', description = [], priority = High,
          executor = ''Bob'', comments = [], createdAt = Date 1000, card_sectionId = ''s1'',
          assignees = Some []\<rparr>],
        []]"
proof -
  have h: "''s1'' \<in> set (section_ids demo_board)"
    by (simp add: demo_section_ids)
  note w = moveCard_relocates[OF demo_card_on_board h, of 200 demo_reply]
  from w have "sections (snd (moveCard (Success 200 demo_reply) ''c1'' ''s1'' demo_board)) =
           map (\<lambda>s. s\<lparr>cards :=
                  filter (\<lambda>c. card_id c \<noteq> ''c1'') (cards s)
                  @ (if section_id s = ''s1''
                     then [\<lparr>card_id = cj_id demo_reply, card_title = cj_title demo_reply,
                            description = cj_description demo_reply,
                            priority = cj_priority demo_reply,
                            executor = cj_executor demo_reply,
                            comments = (case cj_comments demo_reply of
                                          None \<Rightarrow> [] | Some cms \<Rightarrow> cms),
                            createdAt = (case cj_createdAt demo_reply of
                                           None \<Rightarrow> InvalidDate | Some t \<Rightarrow> t),
                            card_sectionId = cj_sectionId demo_reply,
                            assignees = cj_assignees demo_reply\<rparr>]
                     else [])\<rparr>)
               (sections demo_board)"
    by (rule conjunct1[OF conjunct2])
  then show ?thesis using demo_card_on_board h
    by (simp add: demo_board_def demo_card_def demo_reply_def)
qed

subsection \<open>Drag and drop\<close>

lemma find_SomeD: "find P xs = Some x \<Longrightarrow> P x \<and> x \<in> set xs"
  by (induction xs) (auto split: if_splits)

text \<open>
  Claim C3. At the end of a drag, when there is no drop target, or the drop target's id is
  the id of no section of the board (a card's id, for one), or the section found for the drop
  target has the id of the section found to contain the dragged card, the handler starts
  nothing: no remote call is made, no toast is shown, and once everything the handler started
  has settled the database and the board are what they were.
\<close>

theorem drag_end_no_op:
  assumes "over_id event = None
           \<or> (\<exists>dropId. over_id event = Some dropId \<and> dropId \<notin> set (section_ids b))
           \<or> (\<exists>dropId target current.
                 over_id event = Some dropId
                 \<and> find (\<lambda>s. section_id s = dropId) (sections b) = Some target
                 \<and> find (\<lambda>s. \<exists>c \<in> set (cards s). card_id c = active_id event) (sections b)
                     = Some current
                 \<and> section_id target = section_id current)"
  shows "handleDragEnd b event = [] \<and> remote_calls (handleDragEnd b event) = 0 \<and>
         settle projectId (handleDragEnd b event) (d, b) = (d, b)"
proof -
  have "handleDragEnd b event = []"
    using assms
    by (auto simp: handleDragEnd_def Let_def section_ids_def
             split: option.splits dest: find_SomeD)
  then show ?thesis by simp
qed

theorem drag_end_no_op_witness:
  "handleDragEnd demo_board \<lparr>active_id = ''c1'', over_id = Some ''s2''\<rparr> = [] \<and>
   remote_calls (handleDragEnd demo_board \<lparr>active_id = ''c1'', over_id = Some ''s2''\<rparr>) = 0 \<and>
   settle ''p'' (handleDragEnd demo_board \<lparr>active_id = ''c1'', over_id = Some ''s2''\<rparr>)
     (demo_db, demo_board) = (demo_db, demo_board)"
proof -
  let ?s2 = "\<lparr>section_id = ''s2'', section_title = ''To Do'', cards = [demo_card],
              canDelete = True\<rparr>"
  have t: "find (\<lambda>s. section_id s = ''s2'') (sections demo_board) = Some ?s2"
    by (simp add: demo_board_def)
  have c: "find (\<lambda>s. \<exists>c \<in> set (cards s). card_id c = ''c1'') (sections demo_board) = Some ?s2"
    by (simp add: demo_board_def demo_card_def)
  show ?thesis
    by (rule drag_end_no_op) (use t c in simp)
qed

subsection \<open>The filtered and sorted view\<close>

lemma mset_insert_by: "mset (insert_by cmp x xs) = add_mset x (mset xs)"
  by (induction xs) auto

lemma mset_js_sort: "mset (js_sort cmp xs) = mset xs"
  by (induction xs) (auto simp: js_sort_def mset_insert_by)

lemma view_frame:
  assumes "getFilteredAndSortedCards f a h = (r, h')"
  shows "length h \<le> r \<and> r < length h' \<and> (\<forall>x < length h. deref h' x = deref h x)
         \<and> deref h' r = js_sort (comparator (sortBy f))
       (if length (priorities f) > 0 \<or> length (executors f) > 0
        then filter (card_matches f) (deref h a) else deref h a)"
  using assms
  by (auto simp: getFilteredAndSortedCards_def alloc_def deref_def sort_in_place_def Let_def
        nth_append split: if_splits)

lemma view_result:
  "deref (snd (getFilteredAndSortedCards f a h)) (fst (getFilteredAndSortedCards f a h)) =
     js_sort (comparator (sortBy f))
       (if length (priorities f) > 0 \<or> length (executors f) > 0
        then filter (card_matches f) (deref h a) else deref h a)"
proof -
  obtain r h' where e: "getFilteredAndSortedCards f a h = (r, h')"
    by (cases "getFilteredAndSortedCards f a h")
  from view_frame[OF e] show ?thesis by (simp add: e)
qed

text \<open>
  Claim C8. With the priority filter holding exactly \<open>high\<close> and the executor filter
  holding exactly \<open>Bob\<close>, the view of an array of cards in disjunctive mode consists of
  exactly the cards whose priority is high or whose executor is Bob, and in conjunctive mode,
  with the same two filters, of exactly the cards with both; each card as often as the array
  has it, under every sort mode.
\<close>

theorem filter_or_and:
  assumes "set (priorities f) = {High}" and "set (executors f) = {''Bob''}"
  shows "mset (deref (snd (getFilteredAndSortedCards (f\<lparr>multiFilter := False\<rparr>) a h))
                     (fst (getFilteredAndSortedCards (f\<lparr>multiFilter := False\<rparr>) a h)))
           = mset (filter (\<lambda>c. priority c = High \<or> executor c = ''Bob'') (deref h a)) \<and>
         mset (deref (snd (getFilteredAndSortedCards (f\<lparr>multiFilter := True\<rparr>) a h))
                     (fst (getFilteredAndSortedCards (f\<lparr>multiFilter := True\<rparr>) a h)))
           = mset (filter (\<lambda>c. priority c = High \<and> executor c = ''Bob'') (deref h a))"
proof -
  have "set (priorities f) \<noteq> {}" "set (executors f) \<noteq> {}"
    unfolding assms by (rule insert_not_empty)+
  then have ne: "priorities f \<noteq> []" "executors f \<noteq> []"
    by (simp_all only: set_empty not_False_eq_True)
  have disj: "card_matches (f\<lparr>multiFilter := False\<rparr>)
             = (\<lambda>c. priority c = High \<or> executor c = ''Bob'')"
    by (rule ext) (simp add: card_matches_def Let_def assms ne)
  have conj: "card_matches (f\<lparr>multiFilter := True\<rparr>)
             = (\<lambda>c. priority c = High \<and> executor c = ''Bob'')"
    by (rule ext) (simp add: card_matches_def Let_def assms ne)
  show ?thesis
    by (simp add: view_result mset_js_sort disj conj ne)
qed

theorem filter_or_and_witness:
  "mset (deref (snd (getFilteredAndSortedCards (demo_filters\<lparr>multiFilter := False\<rparr>) 1 demo_heap))
               (fst (getFilteredAndSortedCards (demo_filters\<lparr>multiFilter := False\<rparr>) 1 demo_heap)))
     = mset (filter (\<lambda>c. priority c = High \<or> executor c = ''Bob'') (deref demo_heap 1)) \<and>
   mset (deref (snd (getFilteredAndSortedCards (demo_filters\<lparr>multiFilter := True\<rparr>) 1 demo_heap))
               (fst (getFilteredAndSortedCards (demo_filters\<lparr>multiFilter := True\<rparr>) 1 demo_heap)))
     = mset (filter (\<lambda>c. priority c = High \<and> executor c = ''Bob'') (deref demo_heap 1))"
  by (rule filter_or_and) (simp_all add: demo_filters_def)

lemma board_view_frame:
  "filteredBoard_sections f ss h = (view, h') \<Longrightarrow>
   length h \<le> length h' \<and> (\<forall>x < length h. deref h' x = deref h x) \<and>
   (\<forall>v \<in> set view. length h \<le> ss_cards v \<and> ss_cards v < length h') \<and>
   distinct (map ss_cards view)"
proof (induction ss arbitrary: h view h')
  case Nil
  then show ?case by simp
next
  case (Cons s ss)
  obtain r h1 where g: "getFilteredAndSortedCards f (ss_cards s) h = (r, h1)"
    by (cases "getFilteredAndSortedCards f (ss_cards s) h")
  obtain rest h2 where t: "filteredBoard_sections f ss h1 = (rest, h2)"
    by (cases "filteredBoard_sections f ss h1")
  from Cons.prems g t have v: "view = s\<lparr>ss_cards := r\<rparr> # rest" and h': "h' = h2"
    by simp_all
  note a = view_frame[OF g]
  note b = Cons.IH[OF t]
  have 1: "length h \<le> length h'" using a b h' by simp
  have 2: "\<forall>x < length h. deref h' x = deref h x" using a b h' by simp
  have 3: "\<forall>v \<in> set view. length h \<le> ss_cards v \<and> ss_cards v < length h'"
    using a b v h' by auto
  have 4: "distinct (map ss_cards view)" using a b v by auto
  show ?case using 1 2 3 4 by simp
qed

lemma board_view_content:
  "filteredBoard_sections f ss h = (view, h') \<Longrightarrow> \<forall>s \<in> set ss. ss_cards s < length h \<Longrightarrow>
   map (section_of h') view =
     map (\<lambda>s. s\<lparr>cards := js_sort (comparator (sortBy f))
       (if length (priorities f) > 0 \<or> length (executors f) > 0
        then filter (card_matches f) (cards s) else cards s)\<rparr>) (map (section_of h) ss)"
proof (induction ss arbitrary: h view h')
  case Nil
  then show ?case by simp
next
  case (Cons s ss)
  obtain r h1 where g: "getFilteredAndSortedCards f (ss_cards s) h = (r, h1)"
    by (cases "getFilteredAndSortedCards f (ss_cards s) h")
  obtain rest h2 where t: "filteredBoard_sections f ss h1 = (rest, h2)"
    by (cases "filteredBoard_sections f ss h1")
  from Cons.prems(1) g t have v: "view = s\<lparr>ss_cards := r\<rparr> # rest" and h': "h' = h2"
    by simp_all
  note a = view_frame[OF g]
  note b = board_view_frame[OF t]
  have valid1: "\<forall>s \<in> set ss. ss_cards s < length h1" using Cons.prems(2) a by auto
  have same: "map (section_of h1) ss = map (section_of h) ss"
    using Cons.prems(2) a by (simp add: section_of_def)
  have r: "deref h2 r = deref h1 r" using a b by simp
  have hd: "section_of h' (s\<lparr>ss_cards := r\<rparr>) =
      (section_of h s)\<lparr>cards := js_sort (comparator (sortBy f))
       (if length (priorities f) > 0 \<or> length (executors f) > 0
        then filter (card_matches f) (cards (section_of h s)) else cards (section_of h s))\<rparr>"
    using a r h' by (simp add: section_of_def)
  show ?case using Cons.IH[OF t valid1] hd v h' same by simp
qed

text \<open>
  Claim C9. Computing the view of the board never changes the store. For a store whose
  sections refer to allocated arrays: every array that existed before the evaluation holds the
  same cards in the same order afterwards, so the sections of the store and their card
  sequences are what they were; every array of the view was allocated by this evaluation, and
  no two sections of the view share one; and the view's sections hold the filtered and sorted
  cards of the store's sections.
\<close>

theorem view_leaves_store:
  assumes "\<forall>s \<in> set ss. ss_cards s < length h"
  shows "(\<forall>a < length h. deref (snd (filteredBoard_sections f ss h)) a = deref h a) \<and>
         map (section_of (snd (filteredBoard_sections f ss h))) ss = map (section_of h) ss \<and>
         (\<forall>v \<in> set (fst (filteredBoard_sections f ss h)). length h \<le> ss_cards v) \<and>
         distinct (map ss_cards (fst (filteredBoard_sections f ss h))) \<and>
         map (section_of (snd (filteredBoard_sections f ss h))) (fst (filteredBoard_sections f ss h)) =
           map (\<lambda>s. s\<lparr>cards := js_sort (comparator (sortBy f))
                  (if length (priorities f) > 0 \<or> length (executors f) > 0
                   then filter (card_matches f) (cards s) else cards s)\<rparr>)
               (map (section_of h) ss)"
proof -
  obtain view h' where e: "filteredBoard_sections f ss h = (view, h')"
    by (cases "filteredBoard_sections f ss h")
  note a = board_view_frame[OF e]
  note c = board_view_content[OF e assms]
  have "map (section_of h') ss = map (section_of h) ss"
    using assms a by (simp add: section_of_def)
  with a c show ?thesis by (simp add: e)
qed

theorem view_leaves_store_witness:
  "map (section_of (snd (filteredBoard_sections demo_filters demo_store demo_heap))) demo_store
     = map (section_of demo_heap) demo_store \<and>
   distinct (map ss_cards (fst (filteredBoard_sections demo_filters demo_store demo_heap)))"
proof -
  have h: "\<forall>s \<in> set demo_store. ss_cards s < length demo_heap"
    by (simp add: demo_store_def demo_heap_def)
  note w = view_leaves_store[OF h, of demo_filters]
  from w have 1: "map (section_of (snd (filteredBoard_sections demo_filters demo_store demo_heap)))
      demo_store = map (section_of demo_heap) demo_store"
    by (rule conjunct1[OF conjunct2])
  from w have 2: "distinct (map ss_cards (fst (filteredBoard_sections demo_filters demo_store demo_heap)))"
    by (rule conjunct1[OF conjunct2[OF conjunct2[OF conjunct2]]])
  from 1 2 show ?thesis by (rule conjI)
qed

subsection \<open>Exclusive membership\<close>











lemma merge_section_ids:
  "section_ids (addCard_merge secId created b) = section_ids b"
  "section_ids (updateCard_merge crd updated b) = section_ids b"
  "section_ids (deleteCard_merge cardId b) = section_ids b"
  "section_ids (moveCard_merge cardId t moved b) = section_ids b"
  "section_ids (assignees_merge cardId us b) = section_ids b"
  by (simp_all add: section_ids_def addCard_merge_def updateCard_merge_def deleteCard_merge_def
        moveCard_merge_def assignees_merge_def Let_def o_def if_distrib cong: if_cong)

lemma card_update_id:
  assumes "card_update i f d = Some (r, d')" and "\<And>c. cr_id (f c) = cr_id c"
  shows "cr_id r = i"
  using assms by (auto simp: card_update_def split: option.splits if_splits dest: find_SomeD)

lemma put_card_reply_id:
  assumes "put_card projectId cardId body d = (Success st updated, d')"
  shows "cj_id updated = cardId"
  using assms
  by (auto simp: put_card_def card_reply_def split: if_splits option.splits
           dest!: card_update_id)








subsection \<open>The merge of \<open>updateCard\<close>\<close>

text \<open>
  The card \<open>c1\<close> is listed by section \<open>s2\<close>; \<open>updateCard\<close> sends section
  \<open>s1\<close>, the route moves the row to \<open>s1\<close> and replies with section \<open>s1\<close>. On the
  board the card is still listed by \<open>s2\<close> and not by \<open>s1\<close>; only its field names
  \<open>s1\<close>.
\<close>

theorem updateCard_membership_counterexample:
  "fst (run ''p'' (UpdateCard (demo_card\<lparr>card_sectionId := ''s1''\<rparr>)) (demo_db, demo_board))
     = Done \<and>
   map section_id (holders demo_board ''c1'') = [''s2''] \<and>
   map cr_sectionId
     (card_rows (fst (snd (run ''p'' (UpdateCard (demo_card\<lparr>card_sectionId := ''s1''\<rparr>))
                            (demo_db, demo_board)))))
     = [''s1''] \<and>
   map (\<lambda>s. (section_id s, map (\<lambda>c. (card_id c, card_sectionId c)) (cards s)))
     (sections (snd (snd (run ''p'' (UpdateCard (demo_card\<lparr>card_sectionId := ''s1''\<rparr>))
                            (demo_db, demo_board)))))
     = [(''s1'', []), (''s2'', [(''c1'', ''s1'')])]"
  by (simp add: demo_db_def demo_board_def demo_card_def holders_def card_ids_def
        put_card_def request_body_def findSectionById_def card_update_def card_updateMany_def
        card_reply_def comments_of_def assignees_of_def updateCard_def updateCard_merge_def
        updated_card_def)

lemma updated_card_fields:
  "updated_card updated c =
     \<lparr>card_id = cj_id updated, card_title = cj_title updated,
      description = cj_description updated, priority = cj_priority updated,
      executor = cj_executor updated,
      comments = (case cj_comments updated of None \<Rightarrow> comments c | Some cms \<Rightarrow> cms),
      createdAt = (case cj_createdAt updated of None \<Rightarrow> createdAt c | Some t \<Rightarrow> t),
      card_sectionId = cj_sectionId updated, assignees = cj_assignees updated\<rparr>"
proof -
  have "map revive_comment cms = cms" for cms
    by (induction cms) (simp_all add: revive_comment_def new_Date_def)
  then show ?thesis
    by (simp add: updated_card_def new_Date_def split: option.splits)
qed

lemma updateCard_ids:
  "cj_id updated = card_id crd \<Longrightarrow>
   map card_ids (sections (updateCard_merge crd updated b)) = map card_ids (sections b)"
  by (simp add: updateCard_merge_def card_ids_def o_def updated_card_def if_distrib cong: if_cong)

text \<open>
  Claim C6, amended. \<open>updateCard\<close> overwrites in place: after a successful call every
  section holds, at each position, the card it held before, except that each card with the
  updated id has all its fields, the section id among them, replaced by those of the server's
  reply (comments and creation date kept when the reply has none). When the reply carries
  the card's id, as the route's reply does, every section lists the same card ids at the same
  positions as before: whatever section id the server returns, the card stays listed by the
  section that listed it.
\<close>

theorem updateCard_overwrites_in_place:
  "fst (updateCard (Success st updated) crd b) = Done \<and>
   sections (snd (updateCard (Success st updated) crd b)) =
     map (\<lambda>s. s\<lparr>cards :=
            map (\<lambda>c. if card_id c = card_id crd
                      then \<lparr>card_id = cj_id updated, card_title = cj_title updated,
                            description = cj_description updated,
                            priority = cj_priority updated, executor = cj_executor updated,
                            comments = (case cj_comments updated of
                                          None \<Rightarrow> comments c | Some cms \<Rightarrow> cms),
                            createdAt = (case cj_createdAt updated of
                                           None \<Rightarrow> createdAt c | Some t \<Rightarrow> t),
                            card_sectionId = cj_sectionId updated,
                            assignees = cj_assignees updated\<rparr>
                      else c)
                (cards s)\<rparr>)
         (sections b) \<and>
   (cj_id updated = card_id crd \<longrightarrow>
      map card_ids (sections (snd (updateCard (Success st updated) crd b)))
        = map card_ids (sections b)) \<and>
   section_ids (snd (snd (run projectId (UpdateCard crd) (d, b)))) = section_ids b \<and>
   map card_ids (sections (snd (snd (run projectId (UpdateCard crd) (d, b)))))
     = map card_ids (sections b)"
proof -
  have 1: "fst (updateCard (Success st updated) crd b) = Done"
    by (simp add: updateCard_def)
  have 2: "sections (snd (updateCard (Success st updated) crd b)) =
     map (\<lambda>s. s\<lparr>cards :=
            map (\<lambda>c. if card_id c = card_id crd
                      then \<lparr>card_id = cj_id updated, card_title = cj_title updated,
                            description = cj_description updated,
                            priority = cj_priority updated, executor = cj_executor updated,
                            comments = (case cj_comments updated of
                                          None \<Rightarrow> comments c | Some cms \<Rightarrow> cms),
                            createdAt = (case cj_createdAt updated of
                                           None \<Rightarrow> createdAt c | Some t \<Rightarrow> t),
                            card_sectionId = cj_sectionId updated,
                            assignees = cj_assignees updated\<rparr>
                      else c)
                (cards s)\<rparr>)
         (sections b)"
    by (simp add: updateCard_def updateCard_merge_def updated_card_fields)
  have 3: "cj_id updated = card_id crd \<longrightarrow>
      map card_ids (sections (snd (updateCard (Success st updated) crd b)))
        = map card_ids (sections b)"
    by (simp add: updateCard_def updateCard_ids)
  have 45: "section_ids (snd (snd (run projectId (UpdateCard crd) (d, b)))) = section_ids b \<and>
   map card_ids (sections (snd (snd (run projectId (UpdateCard crd) (d, b)))))
     = map card_ids (sections b)"
  proof (cases "put_card projectId (card_id crd) (request_body crd (Some (card_sectionId crd))) d")
    case (Pair res d')
    show ?thesis
    proof (cases res)
      case (Failure st msg)
      with Pair show ?thesis by (simp add: updateCard_def)
    next
      case (Success st' upd)
      with Pair have "cj_id upd = card_id crd" by (auto dest: put_card_reply_id)
      with Pair Success show ?thesis
        by (simp add: updateCard_def merge_section_ids updateCard_ids)
    qed
  qed
  from 1 2 3 45 show ?thesis by (intro conjI) simp_all
qed

theorem updateCard_overwrites_in_place_witness:
  "map card_ids (sections (snd (updateCard (Success 200 demo_reply) demo_card demo_board)))
     = map card_ids (sections demo_board) \<and>
   map card_ids (sections (snd (snd (run ''p'' (UpdateCard (demo_card\<lparr>card_sectionId := ''s1''\<rparr>))
                                       (demo_db, demo_board)))))
     = map card_ids (sections demo_board)"
proof -
  have i: "cj_id demo_reply = card_id demo_card"
    by (simp add: demo_reply_def demo_card_def)
  note w = updateCard_overwrites_in_place[of 200 demo_reply demo_card demo_board]
  from w[of "''p''" demo_db] i
  have a: "map card_ids (sections (snd (updateCard (Success 200 demo_reply) demo_card demo_board)))
     = map card_ids (sections demo_board)"
    by blast
  from updateCard_overwrites_in_place[of 200 demo_reply "demo_card\<lparr>card_sectionId := ''s1''\<rparr>"
      demo_board "''p''" demo_db]
  have b: "map card_ids (sections (snd (snd (run ''p'' (UpdateCard (demo_card\<lparr>card_sectionId := ''s1''\<rparr>))
                                       (demo_db, demo_board)))))
     = map card_ids (sections demo_board)"
    by blast
  from a b show ?thesis by (rule conjI)
qed

subsection \<open>Deleting a section\<close>

text \<open>
  Claim C2 fails on the code. In a project with the sections Backlog and To Do, the card
  \<open>c1\<close> in To Do, \<open>deleteSection\<close> of To Do succeeds; the route deletes the cards of
  the section with it, and the refetched board is the Backlog section with no card: \<open>c1\<close>
  is gone from the table and from the board, not moved to Backlog.
\<close>

theorem deleteSection_drops_cards:
  "run ''p'' (DeleteSection ''s2'') (demo_db, demo_board) =
     (Done,
      demo_db\<lparr>section_rows :=
                [\<lparr>sr_id = ''s1'', sr_title = ''Backlog'', sr_canDelete = False,
                  sr_projectId = ''p''\<rparr>],
              card_rows := []\<rparr>,
      \<lparr>board_id = ''p-board'', board_title = ''P'',
       sections =
         [\<lparr>section_id = ''s1'', section_title = ''Backlog'', cards = [], canDelete = False\<rparr>]\<rparr>)"
  by (simp add: demo_db_def demo_board_def demo_card_def delete_section_def Let_def
        comment_deleteMany_def card_deleteMany_def section_delete_def section_deleteMany_def
        get_board_def card_in_project_def deleteSection_def refetch_board_def
        reviveBoardDates_def revive_card_def)

subsection \<open>Sections that are not deletable\<close>

lemma section_rows_card_deleteMany [simp]:
  "section_rows (card_deleteMany P d) = section_rows d"
  by (simp add: card_deleteMany_def Let_def)

lemma section_rows_comment_deleteMany [simp]:
  "section_rows (comment_deleteMany P d) = section_rows d"
  by (simp add: comment_deleteMany_def)

lemma section_rows_card_updateMany [simp]:
  "section_rows (card_updateMany P f d) = section_rows d"
  by (simp add: card_updateMany_def)

lemma section_rows_section_deleteMany [simp]:
  "section_rows (section_deleteMany P d) = filter (\<lambda>s. \<not> P s) (section_rows d)"
  by (simp add: section_deleteMany_def Let_def)

lemma same_id_same_row:
  "distinct (map sr_id rows) \<Longrightarrow> r \<in> set rows \<Longrightarrow> r' \<in> set rows \<Longrightarrow> sr_id r = sr_id r'
   \<Longrightarrow> r = r'"
  by (meson distinct_map inj_onD)

lemma fixed_filter:
  assumes "distinct (map sr_id rows)"
    and "\<And>r. r \<in> set rows \<Longrightarrow> P r \<Longrightarrow> sr_canDelete r"
  shows "filter (\<lambda>r. \<not> sr_canDelete r) (filter (\<lambda>s. \<not> P s) rows)
         = filter (\<lambda>r. \<not> sr_canDelete r) rows"
  using assms(2) by (induction rows) auto

lemma post_section_fixed:
  "fixed_rows (snd (post_section newId projectId title d)) = fixed_rows d \<and>
   (distinct (map sr_id (section_rows d)) \<longrightarrow>
    distinct (map sr_id (section_rows (snd (post_section newId projectId title d)))))"
  by (auto simp: post_section_def section_create_def fixed_rows_def split: option.splits)

lemma delete_section_fixed:
  assumes "distinct (map sr_id (section_rows d))"
  shows "fixed_rows (snd (delete_section projectId i d)) = fixed_rows d \<and>
         distinct (map sr_id (section_rows (snd (delete_section projectId i d))))"
proof (cases "find (\<lambda>s. sr_id s = i \<and> sr_projectId s = projectId) (section_rows d)")
  case None
  then show ?thesis using assms by (simp add: delete_section_def)
next
  case (Some sec)
  note f = find_SomeD[OF Some]
  show ?thesis
  proof (cases "sr_canDelete sec")
    case False
    then show ?thesis using assms Some by (simp add: delete_section_def)
  next
    case True
    have del: "\<And>r. r \<in> set (section_rows d) \<Longrightarrow> sr_id r = i \<Longrightarrow> sr_canDelete r"
      using same_id_same_row[OF assms _ conjunct2[OF f]] f True by auto
    have "filter (\<lambda>r. \<not> sr_canDelete r) (filter (\<lambda>s. \<not> sr_id s = i) (section_rows d))
         = filter (\<lambda>r. \<not> sr_canDelete r) (section_rows d)"
      by (rule fixed_filter[OF assms]) (rule del)
    then show ?thesis using assms Some True f
      by (simp add: delete_section_def Let_def section_delete_def fixed_rows_def distinct_map_filter)
  qed
qed

lemma post_section_clear_fixed:
  "section_rows (snd (post_section_clear projectId i d)) = section_rows d"
  by (simp add: post_section_clear_def Let_def split: option.splits)

lemma delete_all_fixed:
  assumes "distinct (map sr_id (section_rows d))"
  shows "fixed_rows (snd (post_sections_delete_all projectId d)) = fixed_rows d \<and>
         distinct (map sr_id (section_rows (snd (post_sections_delete_all projectId d))))"
proof (cases "find (\<lambda>s. sr_title s = ''Backlog'')
                (filter (\<lambda>s. sr_projectId s = projectId) (section_rows d))")
  case None
  then show ?thesis using assms by (simp add: post_sections_delete_all_def Let_def)
next
  case (Some backlog)
  let ?ids = "map sr_id (filter sr_canDelete (filter (\<lambda>s. sr_projectId s = projectId) (section_rows d)))"
  have del: "\<And>r. r \<in> set (section_rows d) \<Longrightarrow> sr_id r \<in> set ?ids \<Longrightarrow> sr_canDelete r"
  proof -
    fix r assume r: "r \<in> set (section_rows d)" and "sr_id r \<in> set ?ids"
    then obtain r' where "r' \<in> set (section_rows d)" "sr_canDelete r'" "sr_id r' = sr_id r"
      by auto
    with same_id_same_row[OF assms r] show "sr_canDelete r" by metis
  qed
  have "filter (\<lambda>r. \<not> sr_canDelete r) (filter (\<lambda>s. \<not> sr_id s \<in> set ?ids) (section_rows d))
         = filter (\<lambda>r. \<not> sr_canDelete r) (section_rows d)"
    by (rule fixed_filter[OF assms]) (rule del)
  then show ?thesis using assms Some
    by (simp add: post_sections_delete_all_def Let_def fixed_rows_def distinct_map_filter)
qed

lemma card_routes_sections:
  "section_rows (snd (post_card newId now projectId secId body d)) = section_rows d"
  "section_rows (snd (put_card projectId cardId body d)) = section_rows d"
  "section_rows (snd (delete_card projectId cardId d)) = section_rows d"
  "section_rows (snd (post_card_move projectId cardId target d)) = section_rows d"
  "section_rows (snd (post_assignee projectId cardId userId d)) = section_rows d"
  "section_rows (snd (delete_assignee projectId cardId userId d)) = section_rows d"
  by (auto simp: post_card_def put_card_def delete_card_def post_card_move_def post_assignee_def
        delete_assignee_def card_create_def card_update_def card_delete_def Let_def
        split: option.splits if_splits)

lemma run_fixed:
  assumes "distinct (map sr_id (section_rows d))"
  shows "fixed_rows (fst (snd (run projectId x (d, b)))) = fixed_rows d \<and>
         distinct (map sr_id (section_rows (fst (snd (run projectId x (d, b))))))"
proof (cases x)
  case (AddSection newId title)
  then show ?thesis using post_section_fixed[of newId projectId title d] assms
    by (simp add: split_beta)
next
  case (DeleteSection i)
  then show ?thesis using delete_section_fixed[OF assms, of projectId i]
    by (simp add: split_beta)
next
  case (ClearSection i)
  then show ?thesis using post_section_clear_fixed[of projectId i d] assms
    by (simp add: split_beta fixed_rows_def)
next
  case DeleteAllSections
  then show ?thesis using delete_all_fixed[OF assms, of projectId]
    by (simp add: split_beta)
qed (use assms in \<open>simp_all add: split_beta fixed_rows_def card_routes_sections\<close>)

lemma run_all_fixed:
  "distinct (map sr_id (section_rows d)) \<Longrightarrow>
   fixed_rows (fst (run_all projectId xs (d, b))) = fixed_rows d \<and>
   distinct (map sr_id (section_rows (fst (run_all projectId xs (d, b)))))"
proof (induction xs arbitrary: d b)
  case Nil
  then show ?case by simp
next
  case (Cons x xs)
  obtain out d' b' where r: "run projectId x (d, b) = (out, d', b')"
    by (cases "run projectId x (d, b)")
  from run_fixed[OF Cons.prems, of projectId x b] r
  have f: "fixed_rows d' = fixed_rows d" and w: "distinct (map sr_id (section_rows d'))"
    by simp_all
  from Cons.IH[OF w, of b'] f r show ?case by simp
qed

lemma refetch_shows:
  assumes "refetch_board (get_board projectId d') b = (out, b')"
    and "shows_fixed_sections projectId d' b"
  shows "shows_fixed_sections projectId d' b'"
proof (cases "get_board projectId d'")
  case (Failure st msg)
  with assms show ?thesis by (simp add: refetch_board_def)
next
  case (Success st brd)
  then have b': "b' = reviveBoardDates brd" using assms(1) by (simp add: refetch_board_def)
  from Success obtain project where
    brd: "map (\<lambda>s. (section_id s, canDelete s)) (sections brd) =
          map (\<lambda>r. (sr_id r, sr_canDelete r))
            (sort_key sr_title (filter (\<lambda>s. sr_projectId s = projectId) (section_rows d')))"
    by (auto simp: get_board_def Let_def o_def split: option.splits)
  have "\<exists>s \<in> set (sections b'). section_id s = sr_id row \<and> \<not> canDelete s"
    if "row \<in> set (fixed_rows d')" "sr_projectId row = projectId" for row
  proof -
    from that have "row \<in> set (sort_key sr_title (filter (\<lambda>s. sr_projectId s = projectId) (section_rows d')))"
      by (simp add: fixed_rows_def)
    then have "(sr_id row, sr_canDelete row) \<in> set (map (\<lambda>s. (section_id s, canDelete s)) (sections brd))"
      unfolding brd by force
    then obtain s where "s \<in> set (sections brd)" "section_id s = sr_id row" "canDelete s = sr_canDelete row"
      by auto
    moreover from that have "\<not> sr_canDelete row" by (simp add: fixed_rows_def)
    ultimately show ?thesis unfolding b' reviveBoardDates_def by force
  qed
  then show ?thesis by (simp add: shows_fixed_sections_def)
qed

lemma shows_mono:
  assumes "shows_fixed_sections projectId d b"
    and "fixed_rows d' = fixed_rows d"
    and "\<And>s. s \<in> set (sections b) \<Longrightarrow>
           \<exists>s' \<in> set (sections b'). section_id s' = section_id s \<and> canDelete s' = canDelete s"
  shows "shows_fixed_sections projectId d' b'"
  unfolding shows_fixed_sections_def
proof (intro ballI impI)
  fix row assume "row \<in> set (fixed_rows d')" "sr_projectId row = projectId"
  with assms(1,2) obtain s where s: "s \<in> set (sections b)" "section_id s = sr_id row" "\<not> canDelete s"
    by (auto simp: shows_fixed_sections_def)
  from assms(3)[OF s(1)] s(2,3)
  show "\<exists>s \<in> set (sections b'). section_id s = sr_id row \<and> \<not> canDelete s" by auto
qed

lemma map_keeps_sections:
  assumes "sections b' = map g (sections b) @ extra"
    and "\<And>s. section_id (g s) = section_id s \<and> canDelete (g s) = canDelete s"
    and "s \<in> set (sections b)"
  shows "\<exists>s' \<in> set (sections b'). section_id s' = section_id s \<and> canDelete s' = canDelete s"
proof -
  from assms(1,3) have "g s \<in> set (sections b')" by simp
  with assms(2) show ?thesis by blast
qed

lemma merges_keep_sections:
  assumes "s \<in> set (sections b)"
  shows
  "\<exists>s' \<in> set (sections (addSection_merge sec b)). section_id s' = section_id s \<and> canDelete s' = canDelete s"
  "\<exists>s' \<in> set (sections (addCard_merge secId created b)). section_id s' = section_id s \<and> canDelete s' = canDelete s"
  "\<exists>s' \<in> set (sections (updateCard_merge crd updated b)). section_id s' = section_id s \<and> canDelete s' = canDelete s"
  "\<exists>s' \<in> set (sections (deleteCard_merge cardId b)). section_id s' = section_id s \<and> canDelete s' = canDelete s"
  "\<exists>s' \<in> set (sections (moveCard_merge cardId target moved b)). section_id s' = section_id s \<and> canDelete s' = canDelete s"
  "\<exists>s' \<in> set (sections (assignees_merge cardId us b)). section_id s' = section_id s \<and> canDelete s' = canDelete s"
proof -
  show "\<exists>s' \<in> set (sections (addSection_merge sec b)). section_id s' = section_id s \<and> canDelete s' = canDelete s"
    by (rule map_keeps_sections[where g = "\<lambda>s. s" and extra = "[sec]", OF _ _ assms])
       (simp_all add: addSection_merge_def)
  show "\<exists>s' \<in> set (sections (addCard_merge secId created b)). section_id s' = section_id s \<and> canDelete s' = canDelete s"
    by (rule map_keeps_sections[where extra = "[]" and g = "\<lambda>s. if section_id s = secId
                 then s\<lparr>cards := cards s @ [created_card created]\<rparr> else s", OF _ _ assms])
       (simp_all add: addCard_merge_def)
  show "\<exists>s' \<in> set (sections (updateCard_merge crd updated b)). section_id s' = section_id s \<and> canDelete s' = canDelete s"
    by (rule map_keeps_sections[where extra = "[]" and g = "\<lambda>s. s\<lparr>cards :=
              map (\<lambda>c. if card_id c = card_id crd then updated_card updated c else c) (cards s)\<rparr>",
              OF _ _ assms])
       (simp_all add: updateCard_merge_def)
  show "\<exists>s' \<in> set (sections (deleteCard_merge cardId b)). section_id s' = section_id s \<and> canDelete s' = canDelete s"
    by (rule map_keeps_sections[where extra = "[]" and g = "\<lambda>s. s\<lparr>cards :=
              filter (\<lambda>c. card_id c \<noteq> cardId) (cards s)\<rparr>", OF _ _ assms])
       (simp_all add: deleteCard_merge_def)
  show "\<exists>s' \<in> set (sections (moveCard_merge cardId target moved b)). section_id s' = section_id s \<and> canDelete s' = canDelete s"
    by (rule map_keeps_sections[where extra = "[]" and g = "\<lambda>s. s\<lparr>cards := filter (\<lambda>c. card_id c \<noteq> cardId) (cards s)
                          @ (if section_id s = target then [moved_card moved] else [])\<rparr>", OF _ _ assms])
       (simp_all add: moveCard_merge_def Let_def o_def cong: if_cong)
  show "\<exists>s' \<in> set (sections (assignees_merge cardId us b)). section_id s' = section_id s \<and> canDelete s' = canDelete s"
    by (rule map_keeps_sections[where extra = "[]" and g = "\<lambda>s. s\<lparr>cards :=
              map (\<lambda>c. if card_id c = cardId then c\<lparr>assignees := Some us\<rparr> else c) (cards s)\<rparr>",
              OF _ _ assms])
       (simp_all add: assignees_merge_def)
qed

lemma shows_same_board:
  "shows_fixed_sections projectId d b \<Longrightarrow> fixed_rows d' = fixed_rows d \<Longrightarrow>
   shows_fixed_sections projectId d' b"
  by (simp add: shows_fixed_sections_def)

lemma run_shows:
  assumes wf: "distinct (map sr_id (section_rows d))"
    and sh: "shows_fixed_sections projectId d b"
  shows "shows_fixed_sections projectId (fst (snd (run projectId x (d, b))))
           (snd (snd (run projectId x (d, b))))"
proof -
  note fx = conjunct1[OF run_fixed[OF wf, of projectId x b]]
  note same = shows_same_board[OF sh fx]
  show ?thesis
  proof (cases x)
    case (AddSection newId title)
    show ?thesis
    proof (cases "fst (post_section newId projectId title d)")
      case (Failure st msg)
      with same AddSection show ?thesis by (simp add: split_beta addSection_def)
    next
      case (Success st sec)
      have "shows_fixed_sections projectId (fst (snd (run projectId x (d, b))))
              (addSection_merge sec b)"
        by (rule shows_mono[OF sh fx]) (rule merges_keep_sections)
      with AddSection Success show ?thesis by (simp add: split_beta addSection_def)
    qed
  next
    case (DeleteSection i)
    show ?thesis
    proof (cases "fst (delete_section projectId i d)")
      case (Failure st msg)
      with same DeleteSection show ?thesis by (simp add: split_beta deleteSection_def)
    next
      case (Success st u)
      from same DeleteSection
      have "shows_fixed_sections projectId (snd (delete_section projectId i d)) b"
        by (simp add: split_beta)
      from refetch_shows[OF surjective_pairing this] DeleteSection Success
      show ?thesis by (simp add: split_beta deleteSection_def)
    qed
  next
    case (ClearSection i)
    show ?thesis
    proof (cases "fst (post_section_clear projectId i d)")
      case (Failure st msg)
      with same ClearSection show ?thesis by (simp add: split_beta clearSection_def)
    next
      case (Success st u)
      from same ClearSection
      have "shows_fixed_sections projectId (snd (post_section_clear projectId i d)) b"
        by (simp add: split_beta)
      from refetch_shows[OF surjective_pairing this] ClearSection Success
      show ?thesis by (simp add: split_beta clearSection_def)
    qed
  next
    case DeleteAllSections
    show ?thesis
    proof (cases "fst (post_sections_delete_all projectId d)")
      case (Failure st msg)
      with same DeleteAllSections show ?thesis by (simp add: split_beta deleteAllSections_def)
    next
      case (Success st u)
      from same DeleteAllSections
      have "shows_fixed_sections projectId (snd (post_sections_delete_all projectId d)) b"
        by (simp add: split_beta)
      from refetch_shows[OF surjective_pairing this] DeleteAllSections Success
      show ?thesis by (simp add: split_beta deleteAllSections_def)
    qed
  next
    case (AddCard newId now secId crd)
    show ?thesis
    proof (cases "fst (post_card newId now projectId secId (request_body crd None) d)")
      case (Failure st msg)
      with same AddCard show ?thesis by (simp add: split_beta addCard_def)
    next
      case (Success st created)
      have "shows_fixed_sections projectId (fst (snd (run projectId x (d, b))))
              (addCard_merge secId created b)"
        by (rule shows_mono[OF sh fx]) (rule merges_keep_sections)
      with AddCard Success show ?thesis by (simp add: split_beta addCard_def)
    qed
  next
    case (UpdateCard crd)
    show ?thesis
    proof (cases "fst (put_card projectId (card_id crd)
                        (request_body crd (Some (card_sectionId crd))) d)")
      case (Failure st msg)
      with same UpdateCard show ?thesis by (simp add: split_beta updateCard_def)
    next
      case (Success st updated)
      have "shows_fixed_sections projectId (fst (snd (run projectId x (d, b))))
              (updateCard_merge crd updated b)"
        by (rule shows_mono[OF sh fx]) (rule merges_keep_sections)
      with UpdateCard Success show ?thesis by (simp add: split_beta updateCard_def)
    qed
  next
    case (DeleteCard cardId)
    show ?thesis
    proof (cases "fst (delete_card projectId cardId d)")
      case (Failure st msg)
      with same DeleteCard show ?thesis by (simp add: split_beta deleteCard_def)
    next
      case (Success st u)
      have "shows_fixed_sections projectId (fst (snd (run projectId x (d, b))))
              (deleteCard_merge cardId b)"
        by (rule shows_mono[OF sh fx]) (rule merges_keep_sections)
      with DeleteCard Success show ?thesis by (simp add: split_beta deleteCard_def)
    qed
  next
    case (MoveCard cardId target)
    show ?thesis
    proof (cases "fst (post_card_move projectId cardId target d)")
      case (Failure st msg)
      with same MoveCard show ?thesis by (simp add: split_beta moveCard_def)
    next
      case (Success st moved)
      have "shows_fixed_sections projectId (fst (snd (run projectId x (d, b))))
              (moveCard_merge cardId target moved b)"
        by (rule shows_mono[OF sh fx]) (rule merges_keep_sections)
      with MoveCard Success show ?thesis by (simp add: split_beta moveCard_def)
    qed
  next
    case (AssignUser cardId userId)
    show ?thesis
    proof (cases "fst (post_assignee projectId cardId userId d)")
      case (Failure st msg)
      with same AssignUser show ?thesis by (simp add: split_beta assignUser_def)
    next
      case (Success st us)
      have "shows_fixed_sections projectId (fst (snd (run projectId x (d, b))))
              (assignees_merge cardId us b)"
        by (rule shows_mono[OF sh fx]) (rule merges_keep_sections)
      with AssignUser Success show ?thesis by (simp add: split_beta assignUser_def)
    qed
  next
    case (UnassignUser cardId userId)
    show ?thesis
    proof (cases "fst (delete_assignee projectId cardId userId d)")
      case (Failure st msg)
      with same UnassignUser show ?thesis by (simp add: split_beta unassignUser_def)
    next
      case (Success st us)
      have "shows_fixed_sections projectId (fst (snd (run projectId x (d, b))))
              (assignees_merge cardId us b)"
        by (rule shows_mono[OF sh fx]) (rule merges_keep_sections)
      with UnassignUser Success show ?thesis by (simp add: split_beta unassignUser_def)
    qed
  qed
qed

lemma run_all_shows:
  "distinct (map sr_id (section_rows d)) \<Longrightarrow> shows_fixed_sections projectId d b \<Longrightarrow>
   shows_fixed_sections projectId (fst (run_all projectId xs (d, b)))
     (snd (run_all projectId xs (d, b)))"
proof (induction xs arbitrary: d b)
  case Nil
  then show ?case by simp
next
  case (Cons x xs)
  obtain out d' b' where r: "run projectId x (d, b) = (out, d', b')"
    by (cases "run projectId x (d, b)")
  from run_fixed[OF Cons.prems(1), of projectId x b] r
  have w: "distinct (map sr_id (section_rows d'))" by simp
  from run_shows[OF Cons.prems, of x] r
  have s: "shows_fixed_sections projectId d' b'" by simp
  from Cons.IH[OF w s] r show ?case by simp
qed

lemma section_create_keeps:
  "section_create r d = Some d' \<Longrightarrow> section_rows d' = section_rows d @ [r]"
  by (auto simp: section_create_def split: if_splits)

lemma post_project_backlog:
  assumes "post_project newId i1 i2 i3 i4 stamp title d0 = (Success st p, d1)"
  shows "\<lparr>sr_id = i1, sr_title = ''Backlog'', sr_canDelete = False, sr_projectId = newId\<rparr>
           \<in> set (section_rows d1)"
  using assms
  by (auto simp: post_project_def Let_def split: if_splits option.splits
           dest!: section_create_keeps)

lemma handleDeleteSection_guard:
  assumes "CallDeleteSection x \<in> set (handleDeleteSection b secId)"
  shows "x = secId \<and> (\<exists>s. find (\<lambda>s. section_id s = secId) (sections b) = Some s \<and> canDelete s)"
proof (cases "find (\<lambda>s. section_id s = secId) (sections b)")
  case None
  with assms show ?thesis by (simp add: handleDeleteSection_def)
next
  case (Some sec)
  with assms show ?thesis by (cases "canDelete sec") (simp_all add: handleDeleteSection_def)
qed

lemma delete_section_rejects:
  assumes wf: "distinct (map sr_id (section_rows d))"
    and row: "row \<in> set (section_rows d)" "\<not> sr_canDelete row"
  shows "delete_section projectId (sr_id row) d =
           (if sr_projectId row = projectId
            then (Failure 400 ''Backlog cannot be deleted'', d)
            else (Failure 404 ''Section not found'', d))"
proof (cases "find (\<lambda>s. sr_id s = sr_id row \<and> sr_projectId s = projectId) (section_rows d)")
  case None
  then have "sr_projectId row \<noteq> projectId" using row(1) by (auto simp: find_None_iff)
  with None show ?thesis by (simp add: delete_section_def)
next
  case (Some sec)
  from find_SomeD[OF Some] same_id_same_row[OF wf _ row(1)] have "sec = row" by auto
  with Some row(2) find_SomeD[OF Some] show ?thesis by (simp add: delete_section_def)
qed

text \<open>
  Claim C7. The Backlog section is created not deletable, by the project route and in the
  hook's initial board. The page starts \<open>deleteSection\<close> only for a section it finds
  deletable. For a section row that is not deletable, in a table whose ids are distinct: the
  delete route rejects the request and changes nothing, so the hook's \<open>deleteSection\<close>
  throws and changes nothing; after every sequence of the hook's operations the row is still
  in the table, as it was, not deletable; and a board that listed the project's
  non-deletable sections still lists this section, as not deletable.
\<close>

theorem backlog_is_never_deleted:
  assumes "distinct (map sr_id (section_rows d))"
    and "row \<in> set (section_rows d)" and "\<not> sr_canDelete row"
  shows "(post_project newId i1 i2 i3 i4 stamp title d0 = (Success st p, d1) \<longrightarrow>
            \<lparr>sr_id = i1, sr_title = ''Backlog'', sr_canDelete = False, sr_projectId = newId\<rparr>
              \<in> set (section_rows d1)) \<and>
         find (\<lambda>s. section_title s = ''Backlog'') (sections initial_board) =
           Some \<lparr>section_id = ''backlog'', section_title = ''Backlog'', cards = [],
                 canDelete = False\<rparr> \<and>
         (CallDeleteSection x \<in> set (handleDeleteSection b0 secId) \<longrightarrow>
            x = secId \<and>
            (\<exists>s. find (\<lambda>s. section_id s = secId) (sections b0) = Some s \<and> canDelete s)) \<and>
         delete_section projectId (sr_id row) d =
           (if sr_projectId row = projectId
            then (Failure 400 ''Backlog cannot be deleted'', d)
            else (Failure 404 ''Section not found'', d)) \<and>
         run projectId (DeleteSection (sr_id row)) (d, b) =
           (Threw ''Failed to delete section'', d, b) \<and>
         row \<in> set (section_rows (fst (run_all projectId ops (d, b)))) \<and>
         distinct (map sr_id (section_rows (fst (run_all projectId ops (d, b))))) \<and>
         ((\<forall>r \<in> set (section_rows d).
             sr_projectId r = projectId \<and> \<not> sr_canDelete r \<longrightarrow>
             (\<exists>s \<in> set (sections b). section_id s = sr_id r \<and> \<not> canDelete s)) \<and>
          sr_projectId row = projectId \<longrightarrow>
          (\<exists>s \<in> set (sections (snd (run_all projectId ops (d, b)))).
             section_id s = sr_id row \<and> \<not> canDelete s))"
proof -
  have 1: "post_project newId i1 i2 i3 i4 stamp title d0 = (Success st p, d1) \<longrightarrow>
            \<lparr>sr_id = i1, sr_title = ''Backlog'', sr_canDelete = False, sr_projectId = newId\<rparr>
              \<in> set (section_rows d1)"
    using post_project_backlog by blast
  have 2: "find (\<lambda>s. section_title s = ''Backlog'') (sections initial_board) =
           Some \<lparr>section_id = ''backlog'', section_title = ''Backlog'', cards = [],
                 canDelete = False\<rparr>"
    by (simp add: initial_board_def)
  have 3: "CallDeleteSection x \<in> set (handleDeleteSection b0 secId) \<longrightarrow>
            x = secId \<and>
            (\<exists>s. find (\<lambda>s. section_id s = secId) (sections b0) = Some s \<and> canDelete s)"
    using handleDeleteSection_guard by blast
  note 4 = delete_section_rejects[OF assms, of projectId]
  have 5: "run projectId (DeleteSection (sr_id row)) (d, b) =
           (Threw ''Failed to delete section'', d, b)"
    by (simp add: 4 deleteSection_def)
  note f = run_all_fixed[OF assms(1), of projectId ops b]
  from assms(2,3) have "row \<in> set (fixed_rows d)" by (simp add: fixed_rows_def)
  with f have "row \<in> set (fixed_rows (fst (run_all projectId ops (d, b))))" by simp
  then have 6: "row \<in> set (section_rows (fst (run_all projectId ops (d, b))))"
    by (simp add: fixed_rows_def)
  have 7: "distinct (map sr_id (section_rows (fst (run_all projectId ops (d, b)))))"
    using f by simp
  have 8: "(\<forall>r \<in> set (section_rows d).
             sr_projectId r = projectId \<and> \<not> sr_canDelete r \<longrightarrow>
             (\<exists>s \<in> set (sections b). section_id s = sr_id r \<and> \<not> canDelete s)) \<and>
          sr_projectId row = projectId \<longrightarrow>
          (\<exists>s \<in> set (sections (snd (run_all projectId ops (d, b)))).
             section_id s = sr_id row \<and> \<not> canDelete s)"
  proof
    assume a: "(\<forall>r \<in> set (section_rows d).
             sr_projectId r = projectId \<and> \<not> sr_canDelete r \<longrightarrow>
             (\<exists>s \<in> set (sections b). section_id s = sr_id r \<and> \<not> canDelete s)) \<and>
          sr_projectId row = projectId"
    then have "shows_fixed_sections projectId d b"
      by (simp add: shows_fixed_sections_def fixed_rows_def)
    from run_all_shows[OF assms(1) this, of ops]
    have "shows_fixed_sections projectId (fst (run_all projectId ops (d, b)))
            (snd (run_all projectId ops (d, b)))" .
    moreover have "row \<in> set (fixed_rows (fst (run_all projectId ops (d, b))))"
      by fact
    ultimately show "\<exists>s \<in> set (sections (snd (run_all projectId ops (d, b)))).
             section_id s = sr_id row \<and> \<not> canDelete s"
      using a unfolding shows_fixed_sections_def by blast
  qed
  from 1 2 3 4 5 6 7 8 show ?thesis by (intro conjI)
qed

theorem backlog_is_never_deleted_witness:
  "demo_backlog_row \<in> set (section_rows (fst (run_all ''p''
       [DeleteSection ''s1'', DeleteAllSections, DeleteSection ''s2'', ClearSection ''s1'']
       (demo_db, demo_board)))) \<and>
   run ''p'' (DeleteSection ''s1'') (demo_db, demo_board)
     = (Threw ''Failed to delete section'', demo_db, demo_board)"
proof -
  have 1: "distinct (map sr_id (section_rows demo_db))"
    by (simp add: demo_db_def)
  have 2: "demo_backlog_row \<in> set (section_rows demo_db)"
    by (simp add: demo_db_def demo_backlog_row_def)
  have 3: "\<not> sr_canDelete demo_backlog_row"
    by (simp add: demo_backlog_row_def)
  have i: "sr_id demo_backlog_row = ''s1''" by (simp add: demo_backlog_row_def)
  note w = backlog_is_never_deleted[OF 1 2 3, where projectId = "''p''" and b = demo_board
      and ops = "[DeleteSection ''s1'', DeleteAllSections, DeleteSection ''s2'', ClearSection ''s1'']"]
  from w have a: "demo_backlog_row \<in> set (section_rows (fst (run_all ''p''
       [DeleteSection ''s1'', DeleteAllSections, DeleteSection ''s2'', ClearSection ''s1'']
       (demo_db, demo_board))))"
    by (rule conjunct1[OF conjunct2[OF conjunct2[OF conjunct2[OF conjunct2[OF conjunct2]]]]])
  from w have "run ''p'' (DeleteSection (sr_id demo_backlog_row)) (demo_db, demo_board)
     = (Threw ''Failed to delete section'', demo_db, demo_board)"
    by (rule conjunct1[OF conjunct2[OF conjunct2[OF conjunct2[OF conjunct2]]]])
  then have b: "run ''p'' (DeleteSection ''s1'') (demo_db, demo_board)
     = (Threw ''Failed to delete section'', demo_db, demo_board)"
    unfolding i .
  from a b show ?thesis by (rule conjI)
qed

end
